theory Spec2Isabelle
  imports Complex_Main "HOL-Library.Multiset"
begin

section \<open>JavaScript values\<close>

text \<open>
  The program is TypeScript in which every datum is typed \<^verbatim>\<open>any\<close>: the upstream payloads are
  whatever \<^verbatim>\<open>res.body.json()\<close> parsed, and the cache stores \<^verbatim>\<open>data: any\<close>. The values are
  therefore modelled as the values JSON parsing and property access can produce.

  A number is an IEEE double. The model keeps the three non-finite values apart and takes a
  finite double as the rational it denotes; \<^verbatim>\<open>-0\<close> is identified with \<^verbatim>\<open>0\<close> (the program never
  tells them apart: both are falsy, compare equal and print as 0).
\<close>

datatype jsnum = NaN | NInf | Fin rat | PInf

datatype jsval =
    Undefined
  | Null
  | JBool bool
  | JNum jsnum
  | JStr string
  | JArr "jsval list"
  | JObj "(string \<times> jsval) list"

text \<open>ToBoolean: what \<^verbatim>\<open>if (c)\<close>, \<^verbatim>\<open>a || b\<close> and \<^verbatim>\<open>c ? x : y\<close> test.\<close>

fun truthy :: "jsval \<Rightarrow> bool" where
  "truthy Undefined = False"
| "truthy Null = False"
| "truthy (JBool b) = b"
| "truthy (JNum n) = (n \<noteq> NaN \<and> n \<noteq> Fin 0)"
| "truthy (JStr s) = (s \<noteq> [])"
| "truthy (JArr xs) = True"
| "truthy (JObj kvs) = True"

text \<open>
  Property access \<^verbatim>\<open>x?.k\<close> for a data property \<open>k\<close>. The names the program reads
  (\<^verbatim>\<open>participants\<close>, \<^verbatim>\<open>meta\<close>, \<^verbatim>\<open>location\<close>, \<^verbatim>\<open>scores\<close>, \<^verbatim>\<open>description\<close>, \<^verbatim>\<open>score\<close>, \<^verbatim>\<open>participant\<close>,
  \<^verbatim>\<open>goals\<close>, \<^verbatim>\<open>league\<close>, \<^verbatim>\<open>name\<close>, \<^verbatim>\<open>starting_at\<close>, \<^verbatim>\<open>id\<close>, \<^verbatim>\<open>league_id\<close>, \<^verbatim>\<open>state_id\<close>, \<^verbatim>\<open>short_code\<close>,
  \<^verbatim>\<open>image_path\<close>, \<^verbatim>\<open>data\<close>, \<^verbatim>\<open>query\<close>, \<^verbatim>\<open>days\<close>) are defined on no built-in prototype, so the
  access yields the own property of an object and \<^verbatim>\<open>undefined\<close> on anything else; on
  \<^verbatim>\<open>null\<close> and \<^verbatim>\<open>undefined\<close> that is the optional chaining. An object is the association list of
  its own properties, as parsed (keys distinct).
\<close>

fun field :: "jsval \<Rightarrow> string \<Rightarrow> jsval" where
  "field (JObj kvs) k = (case map_of kvs k of None \<Rightarrow> Undefined | Some v \<Rightarrow> v)"
| "field v k = Undefined"

text \<open>\<^verbatim>\<open>a || b\<close> and \<^verbatim>\<open>a ?? b\<close>.\<close>

definition js_or :: "jsval \<Rightarrow> jsval \<Rightarrow> jsval" where
  "js_or a b = (if truthy a then a else b)"

definition nullish :: "jsval \<Rightarrow> jsval \<Rightarrow> jsval" where
  "nullish a b = (if a = Undefined \<or> a = Null then b else a)"

text \<open>Every exception the program can raise, and the failures of the upstream call.\<close>

datatype error = TypeError | RangeError | SyntaxError | NetworkError

subsection \<open>Built-ins of the runtime\<close>

text \<open>
  The environment of a run: the two configuration strings the handlers read, and the parts of
  the JavaScript built-ins that this development does not define. Each built-in below is
  defined on a fragment where the language standard fixes its result and is simple to state;
  outside the fragment it answers what the field of \<open>env\<close> answers. Nothing is assumed about
  these fields, so a theorem with a free \<open>e\<close> holds whatever the runtime does there.
  \<^item> \<open>strnum\<close>: \<^verbatim>\<open>Number(s)\<close> for a string outside the fragment of \<open>StringToNumber\<close>;
  \<^item> \<open>arrnum\<close>: \<^verbatim>\<open>Number(a)\<close> for a non-empty array (it joins the elements; it can throw);
  \<^item> \<open>numstr\<close>: the decimal text of a finite number that is not a small integer;
  \<^item> \<open>dparse\<close>: the time value of \<^verbatim>\<open>new Date(s)\<close> for a string outside the fragment of
    \<open>Date_parse\<close>, \<open>None\<close> for an invalid date (time value NaN);
  \<^item> \<open>locfmt\<close>: \<^verbatim>\<open>toLocaleString('ar', {hour, minute, timeZone: 'Asia/Bahrain'})\<close> of a date,
    given by its time value. The locale and the time zone are constants that the runtime
    knows, so the call returns a string (for an invalid date, the text that says so);
  \<^item> \<open>sortrem\<close>: the order in which \<^verbatim>\<open>Array.prototype.sort\<close> leaves an array whose comparator
    is not a consistent order, which the standard leaves to the implementation: given the sort
    keys of the elements (\<open>None\<close> for NaN), the old positions of the elements in their new order.
\<close>

record env =
  API_BASE :: string
  API_KEY :: string
  strnum :: "string \<Rightarrow> jsnum"
  arrnum :: "jsval list \<Rightarrow> error + jsnum"
  numstr :: "rat \<Rightarrow> string"
  dparse :: "string \<Rightarrow> int option"
  locfmt :: "int option \<Rightarrow> string"
  sortrem :: "int option list \<Rightarrow> nat list"

text \<open>The order of numbers: every comparison with NaN is false.\<close>

fun num_lt :: "jsnum \<Rightarrow> jsnum \<Rightarrow> bool" where
  "num_lt NaN b = False"
| "num_lt a NaN = False"
| "num_lt PInf b = False"
| "num_lt a NInf = False"
| "num_lt NInf b = True"
| "num_lt a PInf = True"
| "num_lt (Fin x) (Fin y) = (x < y)"

definition num_le :: "jsnum \<Rightarrow> jsnum \<Rightarrow> bool" where
  "num_le a b = (a \<noteq> NaN \<and> b \<noteq> NaN \<and> \<not> num_lt b a)"

text \<open>\<^verbatim>\<open>Math.min(a, b)\<close> and \<^verbatim>\<open>Math.max(a, b)\<close>: NaN when an argument is NaN.\<close>

definition Math_min :: "jsnum \<Rightarrow> jsnum \<Rightarrow> jsnum" where
  "Math_min a b = (if a = NaN \<or> b = NaN then NaN else if num_lt b a then b else a)"

definition Math_max :: "jsnum \<Rightarrow> jsnum \<Rightarrow> jsnum" where
  "Math_max a b = (if a = NaN \<or> b = NaN then NaN else if num_lt a b then b else a)"

text \<open>Decimal digits.\<close>

definition is_digit :: "char \<Rightarrow> bool" where
  "is_digit c = (c \<in> set ''0123456789'')"

definition digit_val :: "char \<Rightarrow> nat" where
  "digit_val c = of_char c - 48"

definition dec_val :: "string \<Rightarrow> nat" where
  "dec_val s = foldl (\<lambda>a c. 10 * a + digit_val c) 0 s"

definition is_letter :: "char \<Rightarrow> bool" where
  "is_letter c = (c \<in> set ''abcdefghijklmnopqrstuvwxyzABCDEFGHIJKLMNOPQRSTUVWXYZ'')"

text \<open>
  \<^verbatim>\<open>Number(s)\<close> for a string (StringToNumber). The fragment: the empty string is 0; a string
  of at most 15 decimal digits is that integer; digits, a point and digits (at most 15 digits
  in all) whose value is a double (its denominator is a power of two) is that value; a string
  whose first character is a letter other than \<^verbatim>\<open>I\<close> matches no numeric literal (one starts
  with white space, a digit, a sign, a point or \<^verbatim>\<open>Infinity\<close>) and is NaN.
\<close>

definition StringToNumber :: "env \<Rightarrow> string \<Rightarrow> jsnum" where
  "StringToNumber e s =
     (let ip = takeWhile is_digit s; rest = dropWhile is_digit s; fp = drop 1 rest in
      if s = [] then Fin 0
      else if rest = [] \<and> length s \<le> 15 then Fin (of_nat (dec_val s))
      else if ip \<noteq> [] \<and> take 1 rest = ''.'' \<and> fp \<noteq> [] \<and> list_all is_digit fp
              \<and> length ip + length fp \<le> 15 \<and> 5 ^ length fp dvd dec_val (ip @ fp)
        then Fin (of_nat (dec_val (ip @ fp)) / 10 ^ length fp)
      else if is_letter (hd s) \<and> hd s \<noteq> CHR ''I'' then NaN
      else strnum e s)"

text \<open>
  \<^verbatim>\<open>Number(v)\<close>. An object that JSON parsing built converts through
  \<^verbatim>\<open>Object.prototype.toString\<close> to \<^verbatim>\<open>"[object Object]"\<close>, which is NaN; when it has an own
  property \<^verbatim>\<open>toString\<close> (never callable, coming from JSON) the conversion finds no callable
  method and throws a TypeError. The empty array converts through the empty string to 0.
\<close>

fun Number :: "env \<Rightarrow> jsval \<Rightarrow> error + jsnum" where
  "Number e Undefined = Inr NaN"
| "Number e Null = Inr (Fin 0)"
| "Number e (JBool b) = Inr (Fin (if b then 1 else 0))"
| "Number e (JNum n) = Inr n"
| "Number e (JStr s) = Inr (StringToNumber e s)"
| "Number e (JArr xs) = (if xs = [] then Inr (Fin 0) else arrnum e xs)"
| "Number e (JObj kvs) = (if ''toString'' \<in> fst ` set kvs then Inl TypeError else Inr NaN)"

text \<open>The decimal text of a natural number, and \<^verbatim>\<open>String(n)\<close> as a template literal forms it.\<close>

fun nat_str :: "nat \<Rightarrow> string" where
  "nat_str n =
     (if n < 10 then [''0123456789'' ! n] else nat_str (n div 10) @ [''0123456789'' ! (n mod 10)])"

definition num_toString :: "env \<Rightarrow> jsnum \<Rightarrow> string" where
  "num_toString e n =
     (case n of
        NaN \<Rightarrow> ''NaN''
      | PInf \<Rightarrow> ''Infinity''
      | NInf \<Rightarrow> ''-Infinity''
      | Fin r \<Rightarrow>
          if r = of_int \<lfloor>r\<rfloor> \<and> \<bar>r\<bar> < 10 ^ 21
          then (if r < 0 then ''-'' else []) @ nat_str (nat \<bar>\<lfloor>r\<rfloor>\<bar>)
          else numstr e r)"

subsection \<open>Dates\<close>

text \<open>
  A time value is an integer number of milliseconds since 1970-01-01T00:00:00Z; \<open>None\<close> is the
  time value NaN of an invalid date. The calendar follows the definitions of the language
  standard (Day, DayFromYear, YearFromTime, MonthFromTime, DateFromTime, MakeDay, TimeClip).
  \<open>YearFromDay d\<close> is the year \<open>y\<close> with \<open>DayFromYear y \<le> d < DayFromYear (y + 1)\<close>: the
  estimate from the mean length of a year is off by at most one.
\<close>

definition msPerDay :: int where
  "msPerDay = 86400000"

definition Day :: "int \<Rightarrow> int" where
  "Day t = t div msPerDay"

definition DayFromYear :: "int \<Rightarrow> int" where
  "DayFromYear y = 365 * (y - 1970) + (y - 1969) div 4 - (y - 1901) div 100 + (y - 1601) div 400"

definition YearFromDay :: "int \<Rightarrow> int" where
  "YearFromDay d =
     (let y = 1970 + (400 * d) div 146097 in
      if DayFromYear (y + 1) \<le> d then y + 1 else if DayFromYear y \<le> d then y else y - 1)"

definition YearFromTime :: "int \<Rightarrow> int" where
  "YearFromTime t = YearFromDay (Day t)"

definition leap_year :: "int \<Rightarrow> bool" where
  "leap_year y = (y mod 4 = 0 \<and> (y mod 100 \<noteq> 0 \<or> y mod 400 = 0))"

text \<open>The day within the year on which each month starts.\<close>

definition month_starts :: "bool \<Rightarrow> int list" where
  "month_starts leap =
     (let l = (if leap then 1 else 0) in
      [0, 31, 59 + l, 90 + l, 120 + l, 151 + l, 181 + l, 212 + l, 243 + l, 273 + l, 304 + l, 334 + l])"

definition DayWithinYear :: "int \<Rightarrow> int" where
  "DayWithinYear t = Day t - DayFromYear (YearFromTime t)"

definition MonthFromTime :: "int \<Rightarrow> nat" where
  "MonthFromTime t =
     length (filter (\<lambda>s. s \<le> DayWithinYear t) (drop 1 (month_starts (leap_year (YearFromTime t)))))"

definition DateFromTime :: "int \<Rightarrow> int" where
  "DateFromTime t =
     DayWithinYear t - month_starts (leap_year (YearFromTime t)) ! MonthFromTime t + 1"

definition MakeDay :: "int \<Rightarrow> int \<Rightarrow> int \<Rightarrow> int" where
  "MakeDay year month date =
     (let ym = year + month div 12; mn = nat (month mod 12) in
      DayFromYear ym + month_starts (leap_year ym) ! mn + date - 1)"

definition TimeClip :: "int \<Rightarrow> int option" where
  "TimeClip t = (if \<bar>t\<bar> \<le> 8640000000000000 then Some t else None)"

text \<open>\<^verbatim>\<open>Date.UTC(year, month, date)\<close>: a year from 0 to 99 means 1900 + year.\<close>

definition Date_UTC :: "int \<Rightarrow> int \<Rightarrow> int \<Rightarrow> int option" where
  "Date_UTC year month date =
     (let yr = (if 0 \<le> year \<and> year \<le> 99 then 1900 + year else year) in
      TimeClip (MakeDay yr month date * msPerDay))"

text \<open>
  \<^verbatim>\<open>d.setUTCDate(dt)\<close> for a valid date with time value \<open>t\<close>: the same month and time of day,
  day of the month \<open>dt\<close>.
\<close>

definition setUTCDate :: "int \<Rightarrow> int \<Rightarrow> int option" where
  "setUTCDate t dt =
     TimeClip (MakeDay (YearFromTime t) (int (MonthFromTime t)) dt * msPerDay + t mod msPerDay)"

definition pad :: "nat \<Rightarrow> nat \<Rightarrow> string" where
  "pad w n = replicate (w - length (nat_str n)) CHR ''0'' @ nat_str n"

text \<open>
  \<^verbatim>\<open>d.toISOString()\<close>: \<^verbatim>\<open>YYYY-MM-DDTHH:mm:ss.sssZ\<close>, the year with a sign and six digits outside
  0 to 9999; a RangeError on an invalid date.
\<close>

definition toISOString :: "int option \<Rightarrow> error + string" where
  "toISOString tv =
     (case tv of
        None \<Rightarrow> Inl RangeError
      | Some t \<Rightarrow>
          let y = YearFromTime t; ms = t mod msPerDay in
          Inr ((if 0 \<le> y \<and> y \<le> 9999 then pad 4 (nat y)
                else (if y < 0 then ''-'' else ''+'') @ pad 6 (nat \<bar>y\<bar>))
               @ ''-'' @ pad 2 (MonthFromTime t + 1)
               @ ''-'' @ pad 2 (nat (DateFromTime t))
               @ ''T'' @ pad 2 (nat (ms div 3600000))
               @ '':'' @ pad 2 (nat (ms div 60000 mod 60))
               @ '':'' @ pad 2 (nat (ms div 1000 mod 60))
               @ ''.'' @ pad 3 (nat (ms mod 1000)) @ ''Z''))"

text \<open>
  \<^verbatim>\<open>new Date(s).getTime()\<close> for a string. The fragment is the form the normalizer produces
  from a well-formed \<^verbatim>\<open>starting_at\<close>: \<^verbatim>\<open>YYYY-MM-DDTHH:MM:SSZ\<close> with every field in range.
\<close>

definition iso_utc :: "string \<Rightarrow> int option" where
  "iso_utc s =
     (let y = int (dec_val (take 4 s)); mo = int (dec_val (take 2 (drop 5 s)));
          d = int (dec_val (take 2 (drop 8 s))); h = int (dec_val (take 2 (drop 11 s)));
          mi = int (dec_val (take 2 (drop 14 s))); sec = int (dec_val (take 2 (drop 17 s)))
      in
      if length s = 20
         \<and> list_all is_digit (take 4 s) \<and> s ! 4 = CHR ''-''
         \<and> list_all is_digit (take 2 (drop 5 s)) \<and> s ! 7 = CHR ''-''
         \<and> list_all is_digit (take 2 (drop 8 s)) \<and> s ! 10 = CHR ''T''
         \<and> list_all is_digit (take 2 (drop 11 s)) \<and> s ! 13 = CHR '':''
         \<and> list_all is_digit (take 2 (drop 14 s)) \<and> s ! 16 = CHR '':''
         \<and> list_all is_digit (take 2 (drop 17 s)) \<and> s ! 19 = CHR ''Z''
         \<and> 1 \<le> mo \<and> mo \<le> 12 \<and> 1 \<le> d \<and> MakeDay y (mo - 1) d < MakeDay y mo 1
         \<and> h \<le> 23 \<and> mi \<le> 59 \<and> sec \<le> 59
      then Some (MakeDay y (mo - 1) d * msPerDay + h * 3600000 + mi * 60000 + sec * 1000)
      else None)"

definition Date_parse :: "env \<Rightarrow> string \<Rightarrow> int option" where
  "Date_parse e s = (case iso_utc s of Some t \<Rightarrow> Some t | None \<Rightarrow> dparse e s)"

section \<open>The in-memory cache\<close>

text \<open>
  \<^verbatim>\<open>type CacheEntry = { exp: number; data: any }\<close> and
  \<^verbatim>\<open>const cache: Record<string, CacheEntry> = {}\<close>. The field \<^verbatim>\<open>exp\<close> is named \<open>exp_t\<close> here.
  The global object \<^verbatim>\<open>cache\<close> is passed in and returned; \<^verbatim>\<open>Date.now()\<close> is the argument \<open>now\<close>,
  an integer number of milliseconds. Every key the handlers build contains a colon, so no key
  names a property that the object inherits from its prototype, and the object is a finite map.
\<close>

record CacheEntry =
  exp_t :: int
  data :: jsval

type_synonym cache = "string \<rightharpoonup> CacheEntry"

definition put :: "string \<Rightarrow> jsval \<Rightarrow> int \<Rightarrow> int \<Rightarrow> cache \<Rightarrow> cache" where
  "put k d ttlMs now c = c(k \<mapsto> \<lparr>exp_t = now + ttlMs, data = d\<rparr>)"

definition get :: "string \<Rightarrow> int \<Rightarrow> cache \<Rightarrow> jsval" where
  "get k now c =
     (case c k of
        None \<Rightarrow> Null
      | Some v \<Rightarrow> if exp_t v > now then data v else Null)"

section \<open>Normalizing fixtures\<close>

subsection \<open>currentScore\<close>

text \<open>\<^verbatim>\<open>Number(s.score.goals ?? 0)\<close>.\<close>

definition goals_of :: "env \<Rightarrow> jsval \<Rightarrow> error + jsnum" where
  "goals_of e s = Number e (nullish (field (field s ''score'') ''goals'') (JNum (Fin 0)))"

text \<open>The body of the \<^verbatim>\<open>for\<close> loop: the two assignments, in order, under the test on the description.\<close>

definition score_step :: "env \<Rightarrow> jsval \<Rightarrow> jsnum \<times> jsnum \<Rightarrow> error + jsnum \<times> jsnum" where
  "score_step e s acc =
     (if field s ''description'' = JStr ''CURRENT'' then
        (case (if field (field s ''score'') ''participant'' = JStr ''home''
               then goals_of e s else Inr (fst acc)) of
           Inl err \<Rightarrow> Inl err
         | Inr home \<Rightarrow>
             (case (if field (field s ''score'') ''participant'' = JStr ''away''
                    then goals_of e s else Inr (snd acc)) of
                Inl err \<Rightarrow> Inl err
              | Inr away \<Rightarrow> Inr (home, away)))
      else Inr acc)"

fun score_loop :: "env \<Rightarrow> jsval list \<Rightarrow> jsnum \<times> jsnum \<Rightarrow> error + jsnum \<times> jsnum" where
  "score_loop e [] acc = Inr acc"
| "score_loop e (s # ss) acc =
     (case score_step e s acc of Inl err \<Rightarrow> Inl err | Inr acc' \<Rightarrow> score_loop e ss acc')"

text \<open>The pair is \<^verbatim>\<open>{ home, away }\<close>; anything but an array leaves both at 0.\<close>

definition currentScore :: "env \<Rightarrow> jsval \<Rightarrow> error + jsnum \<times> jsnum" where
  "currentScore e scores =
     (case scores of
        JArr xs \<Rightarrow> score_loop e xs (Fin 0, Fin 0)
      | _ \<Rightarrow> Inr (Fin 0, Fin 0))"

subsection \<open>mapFixture\<close>

text \<open>
  The object literals that \<^verbatim>\<open>mapFixture\<close> returns have a fixed shape, so they are records.
  The source's \<^verbatim>\<open>id\<close> is \<open>team_id\<close> in a team and \<open>fixture_id\<close> in a fixture. A field copied
  from the input is whatever value the input had (\<^verbatim>\<open>undefined\<close> when it had none); the two
  kickoff fields are a string or \<^verbatim>\<open>null\<close> (\<open>None\<close>).
\<close>

record Team =
  team_id :: jsval
  name :: jsval
  code :: jsval
  logo :: jsval

record CanonicalFixture =
  fixture_id :: jsval
  league_id :: jsval
  league_name :: jsval
  state_id :: jsval
  kickoff_utc :: "string option"
  kickoff_bahrain :: "string option"
  home :: Team
  away :: Team
  score_home :: jsnum
  score_away :: jsnum

text \<open>\<^verbatim>\<open>parts.find(p => p?.meta?.location === loc)\<close>: the first match, or \<^verbatim>\<open>undefined\<close>.\<close>

definition find_location :: "string \<Rightarrow> jsval list \<Rightarrow> jsval" where
  "find_location loc parts =
     (case find (\<lambda>p. field (field p ''meta'') ''location'' = JStr loc) parts of
        None \<Rightarrow> Undefined
      | Some p \<Rightarrow> p)"

definition team_of :: "jsval \<Rightarrow> Team" where
  "team_of p =
     \<lparr>team_id = field p ''id'', name = field p ''name'',
      code = field p ''short_code'', logo = field p ''image_path''\<rparr>"

text \<open>\<^verbatim>\<open>s.replace(' ', 'T')\<close> with string arguments replaces the first occurrence only.\<close>

fun replace_first :: "char \<Rightarrow> char \<Rightarrow> string \<Rightarrow> string" where
  "replace_first a b [] = []"
| "replace_first a b (c # cs) = (if c = a then b # cs else c # replace_first a b cs)"

text \<open>
  \<^verbatim>\<open>fx?.starting_at ? fx.starting_at.replace(' ', 'T') + 'Z' : null\<close>. Only a string has a
  method \<^verbatim>\<open>replace\<close>: on any other truthy value the call is a TypeError.
\<close>

definition kickoffUTC_of :: "jsval \<Rightarrow> error + string option" where
  "kickoffUTC_of fx =
     (if truthy (field fx ''starting_at'') then
        (case field fx ''starting_at'' of
           JStr s \<Rightarrow> Inr (Some (replace_first CHR '' '' CHR ''T'' s @ ''Z''))
         | _ \<Rightarrow> Inl TypeError)
      else Inr None)"

text \<open>
  The statements of \<^verbatim>\<open>mapFixture\<close> in their order. \<^verbatim>\<open>parts\<close> is \<^verbatim>\<open>fx?.participants || []\<close>, a
  truthy value; only an array has a method \<^verbatim>\<open>find\<close>, so on any other value the first call is
  a TypeError.
\<close>

definition mapFixture :: "env \<Rightarrow> jsval \<Rightarrow> error + CanonicalFixture" where
  "mapFixture e fx =
     (case js_or (field fx ''participants'') (JArr []) of
        JArr parts \<Rightarrow>
          (let home_p = js_or (find_location ''home'' parts) (JObj []);
               away_p = js_or (find_location ''away'' parts) (JObj [])
           in
           case currentScore e (js_or (field fx ''scores'') (JArr [])) of
             Inl err \<Rightarrow> Inl err
           | Inr sc \<Rightarrow>
               (case kickoffUTC_of fx of
                  Inl err \<Rightarrow> Inl err
                | Inr kickoffUTC \<Rightarrow>
                    Inr \<lparr>fixture_id = field fx ''id'',
                         league_id = field fx ''league_id'',
                         league_name = nullish (field (field fx ''league'') ''name'') Null,
                         state_id = field fx ''state_id'',
                         kickoff_utc = kickoffUTC,
                         kickoff_bahrain =
                           (case kickoffUTC of
                              None \<Rightarrow> None
                            | Some s \<Rightarrow> if s = [] then None else Some (locfmt e (Date_parse e s))),
                         home = team_of home_p,
                         away = team_of away_p,
                         score_home = fst sc,
                         score_away = snd sc\<rparr>))
      | _ \<Rightarrow> Inl TypeError)"

subsection \<open>sortByKickoff\<close>

text \<open>\<^verbatim>\<open>new Date(a?.kickoff_utc || 0).getTime()\<close>: \<^verbatim>\<open>null\<close> and the empty string are falsy.\<close>

definition kickoff_time :: "env \<Rightarrow> CanonicalFixture \<Rightarrow> int option" where
  "kickoff_time e a =
     (case kickoff_utc a of
        None \<Rightarrow> Some 0
      | Some s \<Rightarrow> if s = [] then Some 0 else Date_parse e s)"

text \<open>The comparator: the difference of the two times, NaN (\<open>None\<close>) when one of them is.\<close>

definition cmp_kickoff :: "env \<Rightarrow> CanonicalFixture \<Rightarrow> CanonicalFixture \<Rightarrow> int option" where
  "cmp_kickoff e a b =
     (case (kickoff_time e a, kickoff_time e b) of
        (Some x, Some y) \<Rightarrow> Some (x - y)
      | _ \<Rightarrow> None)"

text \<open>
  \<^verbatim>\<open>list.sort(cmp)\<close> for a comparator that is a consistent order. The standard requires a stable
  sort and then fixes the result: it is the one stable sorted arrangement, which insertion
  computes (an element moves behind \<open>y\<close> only when \<open>cmp y x < 0\<close>). For any other comparator
  \<open>array_sort\<close> is not the sort of the runtime, and it is not used.
\<close>

fun insert_by :: "('a \<Rightarrow> 'a \<Rightarrow> int option) \<Rightarrow> 'a \<Rightarrow> 'a list \<Rightarrow> 'a list" where
  "insert_by cmp x [] = [x]"
| "insert_by cmp x (y # ys) =
     (if (case cmp y x of Some v \<Rightarrow> v < 0 | None \<Rightarrow> False)
      then y # insert_by cmp x ys else x # y # ys)"

fun array_sort :: "('a \<Rightarrow> 'a \<Rightarrow> int option) \<Rightarrow> 'a list \<Rightarrow> 'a list" where
  "array_sort cmp [] = []"
| "array_sort cmp (x # xs) = insert_by cmp x (array_sort cmp xs)"

text \<open>
  When every time is a number the comparator is the difference of two integers, a consistent
  order. A kickoff that is an invalid date makes it NaN on every pair with that fixture; then
  the order is the implementation's, whatever it is.
\<close>

definition sortByKickoff :: "env \<Rightarrow> CanonicalFixture list \<Rightarrow> CanonicalFixture list" where
  "sortByKickoff e list =
     (if list_all (\<lambda>a. kickoff_time e a \<noteq> None) list then array_sort (cmp_kickoff e) list
      else map (\<lambda>i. list ! i)
             (filter (\<lambda>i. i < length list) (sortrem e (map (kickoff_time e) list))))"

section \<open>The endpoint handlers\<close>

text \<open>
  The handlers are those of the current version of the server (the second of the two copies of
  \<^verbatim>\<open>index.ts\<close> in the source file, which adds the league and the date, tomorrow and upcoming
  endpoints).

  \<^verbatim>\<open>await request(url)\<close> followed by \<^verbatim>\<open>await res.body.json()\<close>. The upstream either cannot be
  reached, or answers with a status code and a body that is JSON (\<open>Some\<close>) or not. \<^verbatim>\<open>request\<close>
  is undici's: it rejects on a network failure and resolves on every status code, and the
  program never reads \<^verbatim>\<open>res.statusCode\<close>; \<^verbatim>\<open>json()\<close> throws a SyntaxError on a body that does
  not parse.
\<close>

datatype upstream = NetworkFailure | Response nat "jsval option"

definition fetch_json :: "upstream \<Rightarrow> error + jsval" where
  "fetch_json r =
     (case r of
        NetworkFailure \<Rightarrow> Inl NetworkError
      | Response status None \<Rightarrow> Inl SyntaxError
      | Response status (Some raw) \<Rightarrow> Inr raw)"

text \<open>
  What one run of a handler does: the value it returns or the exception that fails the
  request, the cache it leaves, and the URLs it requested upstream, in order. A handler is
  run on the cache as it is when the request starts; \<open>up\<close> gives the upstream's answer to
  each URL during the run. The clock is read up to three times: \<open>t_get\<close> in \<^verbatim>\<open>get\<close>,
  \<open>t_new\<close> by \<^verbatim>\<open>new Date()\<close>, \<open>t_put\<close> in \<^verbatim>\<open>put\<close>.
\<close>

record outcome =
  reply :: "error + jsval"
  cache_after :: cache
  fetched :: "string list"

definition hit :: "jsval \<Rightarrow> cache \<Rightarrow> outcome" where
  "hit v c = \<lparr>reply = Inr v, cache_after = c, fetched = []\<rparr>"

definition failed :: "error \<Rightarrow> cache \<Rightarrow> string list \<Rightarrow> outcome" where
  "failed err c urls = \<lparr>reply = Inl err, cache_after = c, fetched = urls\<rparr>"

text \<open>The records as the objects they are, for the response that is cached and returned.\<close>

definition team_json :: "Team \<Rightarrow> jsval" where
  "team_json t =
     JObj [(''id'', team_id t), (''name'', name t), (''code'', code t), (''logo'', logo t)]"

definition str_or_null :: "string option \<Rightarrow> jsval" where
  "str_or_null s = (case s of None \<Rightarrow> Null | Some x \<Rightarrow> JStr x)"

definition fixture_json :: "CanonicalFixture \<Rightarrow> jsval" where
  "fixture_json f =
     JObj [(''id'', fixture_id f), (''league_id'', league_id f), (''league_name'', league_name f),
           (''state_id'', state_id f), (''kickoff_utc'', str_or_null (kickoff_utc f)),
           (''kickoff_bahrain'', str_or_null (kickoff_bahrain f)),
           (''home'', team_json (home f)), (''away'', team_json (away f)),
           (''score_home'', JNum (score_home f)), (''score_away'', JNum (score_away f))]"

fun map_all :: "('a \<Rightarrow> error + 'b) \<Rightarrow> 'a list \<Rightarrow> error + 'b list" where
  "map_all f [] = Inr []"
| "map_all f (x # xs) =
     (case f x of
        Inl err \<Rightarrow> Inl err
      | Inr y \<Rightarrow> (case map_all f xs of Inl err \<Rightarrow> Inl err | Inr ys \<Rightarrow> Inr (y # ys)))"

text \<open>
  \<^verbatim>\<open>(raw?.data ?? []).map(mapFixture)\<close>: only an array has a method \<^verbatim>\<open>map\<close>; the first fixture on
  which \<^verbatim>\<open>mapFixture\<close> throws ends the mapping.
\<close>

definition fixtures_of :: "env \<Rightarrow> jsval \<Rightarrow> error + CanonicalFixture list" where
  "fixtures_of e raw =
     (case nullish (field raw ''data'') (JArr []) of
        JArr xs \<Rightarrow> map_all (mapFixture e) xs
      | _ \<Rightarrow> Inl TypeError)"

definition date_url :: "env \<Rightarrow> string \<Rightarrow> string" where
  "date_url e date =
     API_BASE e @ ''/fixtures/date/'' @ date @ ''?api_token='' @ API_KEY e
       @ ''&include=participants;league;scores&locale=ar''"

definition daily :: "env \<Rightarrow> string \<Rightarrow> CanonicalFixture list \<Rightarrow> jsval" where
  "daily e date fixtures =
     JObj [(''date_utc'', JStr date),
           (''fixtures'', JArr (map fixture_json (sortByKickoff e fixtures)))]"

subsection \<open>A) today\<close>

definition handler_today ::
  "env \<Rightarrow> (string \<Rightarrow> upstream) \<Rightarrow> int \<Rightarrow> int \<Rightarrow> int \<Rightarrow> cache \<Rightarrow> outcome" where
  "handler_today e up t_get t_new t_put c =
     (let cv = get ''fixtures:today:simple'' t_get c in
      if truthy cv then hit cv c
      else
        case toISOString (Some t_new) of
          Inl err \<Rightarrow> failed err c []
        | Inr isoString \<Rightarrow>
            (let todayUTC = take 10 isoString; url = date_url e todayUTC in
             case fetch_json (up url) of
               Inl err \<Rightarrow> failed err c [url]
             | Inr raw \<Rightarrow>
                 (case fixtures_of e raw of
                    Inl err \<Rightarrow> failed err c [url]
                  | Inr fixtures \<Rightarrow>
                      (let response = daily e todayUTC fixtures in
                       \<lparr>reply = Inr response,
                        cache_after = put ''fixtures:today:simple'' response 60000 t_put c,
                        fetched = [url]\<rparr>))))"

subsection \<open>B) live\<close>

definition live_url :: "env \<Rightarrow> string" where
  "live_url e =
     API_BASE e @ ''/livescores/inplay'' @ ''?api_token='' @ API_KEY e
       @ ''&include=participants;league;scores&locale=ar''"

definition handler_live :: "env \<Rightarrow> (string \<Rightarrow> upstream) \<Rightarrow> int \<Rightarrow> int \<Rightarrow> cache \<Rightarrow> outcome" where
  "handler_live e up t_get t_put c =
     (let cv = get ''live:simple'' t_get c in
      if truthy cv then hit cv c
      else
        case fetch_json (up (live_url e)) of
          Inl err \<Rightarrow> failed err c [live_url e]
        | Inr raw \<Rightarrow>
            (case fixtures_of e raw of
               Inl err \<Rightarrow> failed err c [live_url e]
             | Inr mapped \<Rightarrow>
                 (let fixtures = sortByKickoff e mapped;
                      response = JObj [(''count'', JNum (Fin (of_nat (length fixtures)))),
                                       (''fixtures'', JArr (map fixture_json fixtures))]
                  in
                  \<lparr>reply = Inr response,
                   cache_after = put ''live:simple'' response 5000 t_put c,
                   fetched = [live_url e]\<rparr>)))"

subsection \<open>C) a date\<close>

text \<open>\<open>date\<close> is \<^verbatim>\<open>req.params.date\<close>: the path segment, a string, as the router hands it over.\<close>

definition handler_date ::
  "env \<Rightarrow> (string \<Rightarrow> upstream) \<Rightarrow> int \<Rightarrow> int \<Rightarrow> string \<Rightarrow> cache \<Rightarrow> outcome" where
  "handler_date e up t_get t_put date c =
     (let key = ''fixtures:date:'' @ date; cv = get key t_get c in
      if truthy cv then hit cv c
      else
        case fetch_json (up (date_url e date)) of
          Inl err \<Rightarrow> failed err c [date_url e date]
        | Inr raw \<Rightarrow>
            (case fixtures_of e raw of
               Inl err \<Rightarrow> failed err c [date_url e date]
             | Inr fixtures \<Rightarrow>
                 (let response = daily e date fixtures in
                  \<lparr>reply = Inr response,
                   cache_after = put key response 60000 t_put c,
                   fetched = [date_url e date]\<rparr>)))"

subsection \<open>D) tomorrow\<close>

definition handler_tomorrow ::
  "env \<Rightarrow> (string \<Rightarrow> upstream) \<Rightarrow> int \<Rightarrow> int \<Rightarrow> int \<Rightarrow> cache \<Rightarrow> outcome" where
  "handler_tomorrow e up t_get t_new t_put c =
     (let cv = get ''fixtures:tomorrow'' t_get c in
      if truthy cv then hit cv c
      else
        case toISOString (setUTCDate t_new (DateFromTime t_new + 1)) of
          Inl err \<Rightarrow> failed err c []
        | Inr isoString \<Rightarrow>
            (let date = take 10 isoString; url = date_url e date in
             case fetch_json (up url) of
               Inl err \<Rightarrow> failed err c [url]
             | Inr raw \<Rightarrow>
                 (case fixtures_of e raw of
                    Inl err \<Rightarrow> failed err c [url]
                  | Inr fixtures \<Rightarrow>
                      (let response = daily e date fixtures in
                       \<lparr>reply = Inr response,
                        cache_after = put ''fixtures:tomorrow'' response 60000 t_put c,
                        fetched = [url]\<rparr>))))"

subsection \<open>E) upcoming\<close>

text \<open>\<^verbatim>\<open>Math.max(1, Math.min(14, n))\<close>, on \<open>n = Number(req?.query?.days ?? 7)\<close>.\<close>

definition clamp_days :: "jsnum \<Rightarrow> jsnum" where
  "clamp_days n = Math_max (Fin 1) (Math_min (Fin 14) n)"

text \<open>The entry pushed for a day that has fixtures.\<close>

definition day_entry :: "env \<Rightarrow> string \<Rightarrow> CanonicalFixture list \<Rightarrow> jsval" where
  "day_entry e date fixtures =
     JObj [(''date_utc'', JStr date),
           (''fixtures'', JArr (map fixture_json (sortByKickoff e fixtures)))]"

text \<open>
  The \<^verbatim>\<open>for\<close> loop from the state in which the counter is \<open>i\<close>, \<^verbatim>\<open>out\<close> is \<open>out\<close> and \<open>urls\<close> have
  been requested. The variable \<^verbatim>\<open>days\<close> that the test \<^verbatim>\<open>i < days\<close> reads is \<open>clamp_days n\<close>
  all along; the function takes \<open>n\<close>, which makes it total (a clamped value is NaN or at
  most 14). \<open>today\<close> is the time value of \<^verbatim>\<open>new Date()\<close>. An exception leaves the loop with the
  URLs requested so far.
\<close>

function upcoming_loop ::
  "env \<Rightarrow> (string \<Rightarrow> upstream) \<Rightarrow> int \<Rightarrow> jsnum \<Rightarrow> nat \<Rightarrow> jsval list \<Rightarrow> string list
     \<Rightarrow> (error + jsval list) \<times> string list" where
  "upcoming_loop e up today n i out urls =
     (if num_lt (Fin (of_nat i)) (clamp_days n) then
        (case toISOString
                (Date_UTC (YearFromTime today) (int (MonthFromTime today))
                   (DateFromTime today + int i)) of
           Inl err \<Rightarrow> (Inl err, urls)
         | Inr isoString \<Rightarrow>
             (case fetch_json (up (date_url e (take 10 isoString))) of
                Inl err \<Rightarrow> (Inl err, urls @ [date_url e (take 10 isoString)])
              | Inr raw \<Rightarrow>
                  (case fixtures_of e raw of
                     Inl err \<Rightarrow> (Inl err, urls @ [date_url e (take 10 isoString)])
                   | Inr fixtures \<Rightarrow>
                       upcoming_loop e up today n (i + 1)
                         (if length fixtures \<noteq> 0
                          then out @ [day_entry e (take 10 isoString) fixtures] else out)
                         (urls @ [date_url e (take 10 isoString)]))))
      else (Inr out, urls))"
  by pat_completeness auto
termination
proof (relation "measure (\<lambda>(e, up, today, n, i, out, urls). 14 - i)", goal_cases)
  case 1
  show ?case by simp
next
  case (2 e up today n i out urls)
  have "i < 14"
    using 2(1) by (cases n) (auto simp: clamp_days_def Math_max_def Math_min_def split: if_splits)
  then show ?case by simp
qed

declare upcoming_loop.simps [simp del]

text \<open>\<open>req\<close> is the request object; \<^verbatim>\<open>req?.query?.days\<close> is a string, or absent.\<close>

definition handler_upcoming ::
  "env \<Rightarrow> (string \<Rightarrow> upstream) \<Rightarrow> int \<Rightarrow> int \<Rightarrow> int \<Rightarrow> jsval \<Rightarrow> cache \<Rightarrow> outcome" where
  "handler_upcoming e up t_get t_new t_put req c =
     (case Number e (nullish (field (field req ''query'') ''days'') (JNum (Fin 7))) of
        Inl err \<Rightarrow> failed err c []
      | Inr n \<Rightarrow>
          (let days = clamp_days n;
               key = ''fixtures:upcoming:'' @ num_toString e days;
               cached = get key t_get c
           in
           if truthy cached then hit cached c
           else
             case upcoming_loop e up t_new n 0 [] [] of
               (Inl err, urls) \<Rightarrow> failed err c urls
             | (Inr out, urls) \<Rightarrow>
                 (let response = JObj [(''days'', JNum days), (''schedule'', JArr out)] in
                  \<lparr>reply = Inr response,
                   cache_after = put key response 60000 t_put c,
                   fetched = urls\<rparr>)))"

subsection \<open>F) a match, raw\<close>

text \<open>\<open>mid\<close> is \<^verbatim>\<open>req.params.id\<close>. The raw payload is cached and returned as it is.\<close>

definition match_url :: "env \<Rightarrow> string \<Rightarrow> string" where
  "match_url e mid =
     API_BASE e @ ''/fixtures/'' @ mid @ ''?api_token='' @ API_KEY e
       @ ''&include=participants;events;scores&locale=ar''"

definition handler_match ::
  "env \<Rightarrow> (string \<Rightarrow> upstream) \<Rightarrow> int \<Rightarrow> int \<Rightarrow> string \<Rightarrow> cache \<Rightarrow> outcome" where
  "handler_match e up t_get t_put mid c =
     (let key = ''match:'' @ mid; cv = get key t_get c in
      if truthy cv then hit cv c
      else
        case fetch_json (up (match_url e mid)) of
          Inl err \<Rightarrow> failed err c [match_url e mid]
        | Inr raw \<Rightarrow>
            \<lparr>reply = Inr raw, cache_after = put key raw 3000 t_put c,
             fetched = [match_url e mid]\<rparr>)"

section \<open>Notions used to state the properties\<close>

text \<open>
  The environment of the concrete runs below: the default base URL, a key, and built-in
  remainders that answer NaN, an invalid date, the empty string or the order as it was. The
  inputs of the runs stay inside the fragments the built-ins are defined on, or reach a
  remainder only in a field the statement does not depend on.
\<close>

definition env0 :: env where
  "env0 = \<lparr>API_BASE = ''https://api.sportmonks.com/v3/football'', API_KEY = ''KEY'',
           strnum = (\<lambda>s. NaN), arrnum = (\<lambda>xs. Inr NaN), numstr = (\<lambda>r. []),
           dparse = (\<lambda>s. None), locfmt = (\<lambda>t. []), sortrem = (\<lambda>ks. [0..<length ks])\<rparr>"

text \<open>An upstream payload with one fixture that has an id and nothing else.\<close>

definition demo_raw :: jsval where
  "demo_raw = JObj [(''data'', JArr [JObj [(''id'', JNum (Fin 1))]])]"

text \<open>
  A run is read-through on a key when, \<open>cv\<close> being what \<^verbatim>\<open>get\<close> answered: a truthy \<open>cv\<close> is
  returned with no upstream request and the cache as it was; otherwise a run that returns a
  response has stored that response (\<open>store\<close> is the \<^verbatim>\<open>put\<close> on the key), and a run that fails
  has left the cache as it was.
\<close>

definition read_through :: "jsval \<Rightarrow> (jsval \<Rightarrow> cache) \<Rightarrow> cache \<Rightarrow> outcome \<Rightarrow> bool" where
  "read_through cv store c out =
     (if truthy cv then out = hit cv c
      else (case reply out of Inl err \<Rightarrow> cache_after out = c | Inr r \<Rightarrow> cache_after out = store r))"

text \<open>
  The run of a miss that succeeds: it requested \<open>urls\<close>, returns \<open>response\<close> and has stored it
  under \<open>key\<close> with the time to live \<open>ttlMs\<close>, counted from the clock reading \<open>t_put\<close> of \<^verbatim>\<open>put\<close>.
\<close>

definition stored :: "string \<Rightarrow> jsval \<Rightarrow> int \<Rightarrow> int \<Rightarrow> cache \<Rightarrow> string list \<Rightarrow> outcome" where
  "stored key response ttlMs t_put c urls =
     \<lparr>reply = Inr response, cache_after = put key response ttlMs t_put c, fetched = urls\<rparr>"

text \<open>The response of the live endpoint for the normalized fixtures \<open>fixtures\<close>.\<close>

definition live_response :: "env \<Rightarrow> CanonicalFixture list \<Rightarrow> jsval" where
  "live_response e fixtures =
     JObj [(''count'', JNum (Fin (of_nat (length (sortByKickoff e fixtures))))),
           (''fixtures'', JArr (map fixture_json (sortByKickoff e fixtures)))]"

text \<open>The form \<^verbatim>\<open>YYYY-MM-DD\<close>.\<close>

definition is_ymd :: "string \<Rightarrow> bool" where
  "is_ymd s =
     (length s = 10 \<and> list_all is_digit (take 4 s) \<and> s ! 4 = CHR ''-''
      \<and> list_all is_digit (take 2 (drop 5 s)) \<and> s ! 7 = CHR ''-''
      \<and> list_all is_digit (take 2 (drop 8 s)))"

text \<open>
  The key by which \<^verbatim>\<open>sortByKickoff\<close> orders a fixture whose kickoff is a valid date or absent:
  the time value \<^verbatim>\<open>new Date(a?.kickoff_utc || 0).getTime()\<close>, which is 0 for \<^verbatim>\<open>null\<close>.
\<close>

definition kickoff_key :: "env \<Rightarrow> CanonicalFixture \<Rightarrow> int" where
  "kickoff_key e f = (case kickoff_time e f of Some t \<Rightarrow> t | None \<Rightarrow> 0)"

text \<open>
  A fixture with the given kickoff, as \<^verbatim>\<open>mapFixture\<close> builds it from an input that has nothing
  else.
\<close>

definition demo_fixture :: "string option \<Rightarrow> CanonicalFixture" where
  "demo_fixture k =
     \<lparr>fixture_id = Undefined, league_id = Undefined, league_name = Null, state_id = Undefined,
      kickoff_utc = k, kickoff_bahrain = None, home = team_of (JObj []), away = team_of (JObj []),
      score_home = Fin 0, score_away = Fin 0\<rparr>"

text \<open>
  The records the score extractor looks at: those described exactly as \<^verbatim>\<open>CURRENT\<close>; among
  them, those tagged with a side; and the last record of a side in scan order.
\<close>

definition is_current :: "jsval \<Rightarrow> bool" where
  "is_current s = (field s ''description'' = JStr ''CURRENT'')"

definition tagged :: "string \<Rightarrow> jsval \<Rightarrow> bool" where
  "tagged tag s = (is_current s \<and> field (field s ''score'') ''participant'' = JStr tag)"

definition last_tagged :: "string \<Rightarrow> jsval list \<Rightarrow> jsval option" where
  "last_tagged tag xs = (case filter (tagged tag) xs of [] \<Rightarrow> None | y # ys \<Rightarrow> Some (last (y # ys)))"

text \<open>
  The exceptions that \<^verbatim>\<open>Number(s.score.goals ?? 0)\<close> throws on the current records tagged home or
  away, in scan order; and the number the conversion yields on a record on which it does not
  throw.
\<close>

definition thrown :: "env \<Rightarrow> jsval list \<Rightarrow> error list" where
  "thrown e xs =
     concat (map (\<lambda>s. case goals_of e s of Inl err \<Rightarrow> [err] | Inr n \<Rightarrow> [])
               (filter (\<lambda>s. tagged ''home'' s \<or> tagged ''away'' s) xs))"

definition converted :: "env \<Rightarrow> jsval \<Rightarrow> jsnum" where
  "converted e s = (case goals_of e s of Inl err \<Rightarrow> NaN | Inr n \<Rightarrow> n)"

text \<open>
  A score record as the upstream sends it.
\<close>

definition score_record :: "string \<Rightarrow> string \<Rightarrow> jsval \<Rightarrow> jsval" where
  "score_record d p g =
     JObj [(''description'', JStr d), (''score'', JObj [(''participant'', JStr p), (''goals'', g)])]"

text \<open>
  \<^verbatim>\<open>toISOString().slice(0, 10)\<close> of a valid date: the calendar date \<^verbatim>\<open>YYYY-MM-DD\<close> when the year
  is from 0 to 9999.
\<close>

definition iso_date :: "int \<Rightarrow> string" where
  "iso_date t = (case toISOString (Some t) of Inl err \<Rightarrow> [] | Inr s \<Rightarrow> take 10 s)"

text \<open>
  The URL for the calendar day \<open>i\<close> days after the UTC day of \<open>today\<close> (\<open>Day today\<close> is its day
  number).
\<close>

definition day_url :: "env \<Rightarrow> int \<Rightarrow> nat \<Rightarrow> string" where
  "day_url e today i = date_url e (iso_date ((Day today + int i) * msPerDay))"

text \<open>
  A clock reading not before 1970 and with the following 14 days inside the range of
  \<^verbatim>\<open>Date\<close>, as every real clock reading is.
\<close>

definition clock_ok :: "int \<Rightarrow> bool" where
  "clock_ok t = (0 \<le> t \<and> t + 14 * msPerDay \<le> 8640000000000000)"

text \<open>
  The number of naturals \<open>i\<close> with \<^verbatim>\<open>i < days\<close>, for \<open>days = clamp_days n\<close>: how often the loop body
  runs when nothing throws.
\<close>

definition iterations :: "jsnum \<Rightarrow> nat" where
  "iterations n = (case clamp_days n of Fin r \<Rightarrow> nat \<lceil>r\<rceil> | _ \<Rightarrow> 0)"

text \<open>
  The entries of the days \<open>i\<close> to \<open>m - 1\<close> that have fixtures, in the order of the days, when
  \<open>fx j\<close> are the normalized fixtures of day \<open>j\<close>.
\<close>

definition schedule_from :: "env \<Rightarrow> int \<Rightarrow> (nat \<Rightarrow> CanonicalFixture list) \<Rightarrow> nat \<Rightarrow> nat \<Rightarrow> jsval list" where
  "schedule_from e today fx i m =
     map (\<lambda>j. day_entry e (iso_date ((Day today + int j) * msPerDay)) (fx j))
       (filter (\<lambda>j. fx j \<noteq> []) [i..<m])"

text \<open>
  Day \<open>j\<close> succeeds: its upstream request is answered with JSON, which normalizes to \<open>fx j\<close>.
  Day \<open>k\<close> fails with \<open>err\<close>: its upstream request, or the normalization of its answer, throws
  \<open>err\<close>.
\<close>

definition day_ok :: "env \<Rightarrow> (string \<Rightarrow> upstream) \<Rightarrow> int \<Rightarrow> (nat \<Rightarrow> CanonicalFixture list) \<Rightarrow> nat \<Rightarrow> bool" where
  "day_ok e up today fx j =
     (case fetch_json (up (day_url e today j)) of
        Inl err \<Rightarrow> False
      | Inr raw \<Rightarrow> fixtures_of e raw = Inr (fx j))"

definition day_fails :: "env \<Rightarrow> (string \<Rightarrow> upstream) \<Rightarrow> int \<Rightarrow> error \<Rightarrow> nat \<Rightarrow> bool" where
  "day_fails e up today err k =
     (case fetch_json (up (day_url e today k)) of
        Inl err' \<Rightarrow> err' = err
      | Inr raw \<Rightarrow> fixtures_of e raw = Inl err)"

text \<open>
  The response of the upcoming endpoint for the day count \<open>clamp_days n\<close>, when \<open>fx j\<close> are the
  normalized fixtures of day \<open>j\<close>.
\<close>

definition upcoming_response :: "env \<Rightarrow> int \<Rightarrow> jsnum \<Rightarrow> (nat \<Rightarrow> CanonicalFixture list) \<Rightarrow> jsval" where
  "upcoming_response e today n fx =
     JObj [(''days'', JNum (clamp_days n)),
           (''schedule'', JArr (schedule_from e today fx 0 (iterations n)))]"

text \<open>The request object of \<^verbatim>\<open>?days=s\<close>.\<close>

definition days_query :: "string \<Rightarrow> jsval" where
  "days_query s = JObj [(''query'', JObj [(''days'', JStr s)])]"

section \<open>Properties of the cache\<close>

text \<open>
  C2. After \<^verbatim>\<open>put(key, value, ttl)\<close> at time \<open>t\<close>, \<^verbatim>\<open>get(key)\<close> at time \<open>t'\<close> returns the stored
  value exactly when \<open>t' < t + ttl\<close> and \<^verbatim>\<open>null\<close> (absent) otherwise; a later \<^verbatim>\<open>put\<close> on the same
  key replaces the entry whatever it was, and the key maps to the one new entry.
\<close>

theorem put_get_ttl:
  "get k t' (put k v ttl t c) = (if t' < t + ttl then v else Null)
   \<and> put k v' ttl' t' (put k v ttl t c) = put k v' ttl' t' c
   \<and> put k v ttl t c k = Some \<lparr>exp_t = t + ttl, data = v\<rparr>"
  by (simp add: get_def put_def)

theorem put_get_ttl_witness:
  "get ''match:7'' 1002999 (put ''match:7'' (JStr ''raw'') 3000 1000000 Map.empty) = JStr ''raw''
   \<and> get ''match:7'' 1003000 (put ''match:7'' (JStr ''raw'') 3000 1000000 Map.empty) = Null"
  using put_get_ttl [of "''match:7''" 1002999 "JStr ''raw''" 3000 1000000 Map.empty]
    put_get_ttl [of "''match:7''" 1003000 "JStr ''raw''" 3000 1000000 Map.empty]
  by simp


section \<open>Read-through caching in the handlers\<close>

lemma read_through_today:
  "read_through (get ''fixtures:today:simple'' t c) (\<lambda>r. put ''fixtures:today:simple'' r 60000 p c) c
     (handler_today e up t n p c)"
  by (simp add: read_through_def handler_today_def Let_def failed_def split: sum.splits)

lemma read_through_live:
  "read_through (get ''live:simple'' t c) (\<lambda>r. put ''live:simple'' r 5000 p c) c
     (handler_live e up t p c)"
  by (simp add: read_through_def handler_live_def Let_def failed_def split: sum.splits)

lemma read_through_date:
  "read_through (get (''fixtures:date:'' @ date) t c) (\<lambda>r. put (''fixtures:date:'' @ date) r 60000 p c) c
     (handler_date e up t p date c)"
  by (simp add: read_through_def handler_date_def Let_def failed_def split: sum.splits)

lemma read_through_tomorrow:
  "read_through (get ''fixtures:tomorrow'' t c) (\<lambda>r. put ''fixtures:tomorrow'' r 60000 p c) c
     (handler_tomorrow e up t n p c)"
  by (simp add: read_through_def handler_tomorrow_def Let_def failed_def split: sum.splits)

lemma read_through_match:
  "read_through (get (''match:'' @ mid) t c) (\<lambda>r. put (''match:'' @ mid) r 3000 p c) c
     (handler_match e up t p mid c)"
  by (simp add: read_through_def handler_match_def Let_def failed_def split: sum.splits)

lemma read_through_upcoming:
  "Number e (nullish (field (field req ''query'') ''days'') (JNum (Fin 7))) = Inr n \<Longrightarrow>
   read_through (get (''fixtures:upcoming:'' @ num_toString e (clamp_days n)) t c)
     (\<lambda>r. put (''fixtures:upcoming:'' @ num_toString e (clamp_days n)) r 60000 p c) c
     (handler_upcoming e up t d p req c)"
  by (simp add: read_through_def handler_upcoming_def Let_def failed_def split: sum.splits prod.splits)

lemma get_put_same: "get k t (put k v ttl t0 c) = (if t < t0 + ttl then v else Null)"
  by (simp add: get_def put_def)


lemma truthy_daily: "truthy (daily e date fxs)"
  by (simp add: daily_def)

lemma fixtures_of_demo:
  "fixtures_of env0 demo_raw =
     Inr [\<lparr>fixture_id = JNum (Fin 1), league_id = Undefined, league_name = Null,
           state_id = Undefined, kickoff_utc = None, kickoff_bahrain = None,
           home = team_of (JObj []), away = team_of (JObj []),
           score_home = Fin 0, score_away = Fin 0\<rparr>]"
  by (simp add: fixtures_of_def demo_raw_def nullish_def mapFixture_def js_or_def find_location_def
      currentScore_def kickoffUTC_of_def)

section \<open>Falsy values in the cache\<close>





section \<open>The date parameter\<close>

text \<open>
  C9, as stated, fails: the path parameter \<^verbatim>\<open>tomorrow\<close> is not of the form \<^verbatim>\<open>YYYY-MM-DD\<close>, and the
  handler requests the upstream URL that contains it and returns a response built from the
  answer.
\<close>

theorem date_not_validated:
  "\<not> is_ymd ''tomorrow''
   \<and> reply (handler_date env0 (\<lambda>u. Response 200 (Some (JObj [(''data'', JArr [])]))) 1000 1200
        ''tomorrow'' Map.empty)
      = Inr (JObj [(''date_utc'', JStr ''tomorrow''), (''fixtures'', JArr [])])
   \<and> fetched (handler_date env0 (\<lambda>u. Response 200 (Some (JObj [(''data'', JArr [])]))) 1000 1200
        ''tomorrow'' Map.empty)
      = [''https://api.sportmonks.com/v3/football/fixtures/date/tomorrow?api_token=KEY&include=participants;league;scores&locale=ar'']"
  by (simp add: is_ymd_def handler_date_def Let_def get_def fetch_json_def fixtures_of_def
      nullish_def daily_def sortByKickoff_def date_url_def env0_def)

text \<open>
  C9, amended. The date handler does not validate its path parameter: for every string, of
  the form \<^verbatim>\<open>YYYY-MM-DD\<close> or not, a request that misses the cache makes exactly one upstream
  request, for the URL that embeds the string as it was given, and fails only when that
  request or the normalization of its answer throws.
\<close>

theorem date_forwarded_as_given:
  assumes miss: "\<not> truthy (get (''fixtures:date:'' @ date) t c)"
  shows "fetched (handler_date e up t p date c)
      = [API_BASE e @ ''/fixtures/date/'' @ date @ ''?api_token='' @ API_KEY e
           @ ''&include=participants;league;scores&locale=ar'']
    \<and> reply (handler_date e up t p date c)
      = (case fetch_json (up (date_url e date)) of
           Inl err \<Rightarrow> Inl err
         | Inr raw \<Rightarrow> (case fixtures_of e raw of
                         Inl err \<Rightarrow> Inl err
                       | Inr fixtures \<Rightarrow> Inr (daily e date fixtures)))"
  using miss
  by (simp add: handler_date_def Let_def failed_def date_url_def split: sum.splits)

theorem date_forwarded_as_given_witness:
  "\<not> is_ymd ''not-a-date''
   \<and> fetched (handler_date env0 (\<lambda>u. NetworkFailure) 1000 1200 ''not-a-date'' Map.empty)
      = [''https://api.sportmonks.com/v3/football/fixtures/date/not-a-date?api_token=KEY&include=participants;league;scores&locale=ar'']
   \<and> reply (handler_date env0 (\<lambda>u. NetworkFailure) 1000 1200 ''not-a-date'' Map.empty)
      = Inl NetworkError"
proof -
  have miss: "\<not> truthy (get (''fixtures:date:'' @ ''not-a-date'') 1000 Map.empty)"
    by (simp add: get_def)
  show ?thesis
    using date_forwarded_as_given [OF miss, of env0 "\<lambda>u. NetworkFailure" 1200]
    by (simp add: is_ymd_def env0_def fetch_json_def is_digit_def)
qed

section \<open>Ordering by kickoff\<close>

lemma set_insert_by: "set (insert_by cmp x ys) = insert x (set ys)"
  by (induction ys) auto

lemma set_array_sort: "set (array_sort cmp xs) = set xs"
  by (induction xs) (auto simp: set_insert_by)

lemma cmp_kickoff_neg:
  assumes "kickoff_time e a \<noteq> None" and "kickoff_time e b \<noteq> None"
  shows "(case cmp_kickoff e a b of Some v \<Rightarrow> v < 0 | None \<Rightarrow> False)
           = (kickoff_key e a < kickoff_key e b)"
  using assms by (auto simp: cmp_kickoff_def kickoff_key_def)

text \<open>
  A kickoff that is an invalid date makes the comparator NaN on every pair with that fixture,
  so it is not a consistent order unless all the other times are equal; the properties below
  are about lists without such a kickoff.
\<close>

lemma cmp_kickoff_NaN:
  "kickoff_time e a = None \<Longrightarrow> cmp_kickoff e a b = None \<and> cmp_kickoff e b a = None"
  by (simp add: cmp_kickoff_def split: option.splits)

lemma insert_by_insort_key:
  assumes "kickoff_time e x \<noteq> None" and "\<forall>y\<in>set ys. kickoff_time e y \<noteq> None"
  shows "insert_by (cmp_kickoff e) x ys = insort_key (kickoff_key e) x ys"
  using assms
proof (induction ys)
  case Nil
  then show ?case by simp
next
  case (Cons y ys)
  then have "(case cmp_kickoff e y x of Some v \<Rightarrow> v < 0 | None \<Rightarrow> False)
               = (kickoff_key e y < kickoff_key e x)"
    by (simp add: cmp_kickoff_neg)
  with Cons show ?case
    by (simp add: not_le)
qed

lemma array_sort_sort_key:
  assumes "\<forall>f\<in>set xs. kickoff_time e f \<noteq> None"
  shows "array_sort (cmp_kickoff e) xs = sort_key (kickoff_key e) xs"
  using assms
proof (induction xs)
  case Nil
  then show ?case by simp
next
  case (Cons x xs)
  then have "\<forall>y\<in>set (array_sort (cmp_kickoff e) xs). kickoff_time e y \<noteq> None"
    by (simp add: set_array_sort)
  with Cons show ?case
    by (simp add: insert_by_insort_key)
qed

lemma iso_1969: "iso_utc ''1969-12-31T23:00:00Z'' = Some (- 3600000)"
  by (simp add: iso_utc_def is_digit_def dec_val_def digit_val_def MakeDay_def DayFromYear_def
      leap_year_def month_starts_def msPerDay_def)

text \<open>
  C5, as stated, fails: a fixture without a kickoff does not always sort first. Its time is 0,
  which is 1970-01-01T00:00:00Z, so a fixture that kicks off at 1969-12-31T23:00:00Z, with the
  negative time -3600000, comes before it.
\<close>

theorem null_not_first:
  "sortByKickoff env0 [demo_fixture None, demo_fixture (Some ''1969-12-31T23:00:00Z'')]
     = [demo_fixture (Some ''1969-12-31T23:00:00Z''), demo_fixture None]"
proof -
  have t: "kickoff_time env0 (demo_fixture None) = Some 0"
    "kickoff_time env0 (demo_fixture (Some ''1969-12-31T23:00:00Z'')) = Some (- 3600000)"
    by (simp_all add: kickoff_time_def demo_fixture_def Date_parse_def iso_1969)
  show ?thesis
    by (simp add: sortByKickoff_def cmp_kickoff_def t)
qed

text \<open>
  C5, amended. On every list of fixtures whose kickoff is \<^verbatim>\<open>null\<close> or a string that is a valid
  date (the ISO-8601 string or \<^verbatim>\<open>null\<close> of a canonical fixture), \<^verbatim>\<open>sortByKickoff\<close> returns a
  rearrangement of the list that is ascending in the kickoff time, where a \<^verbatim>\<open>null\<close> kickoff
  counts as time 0; fixtures with equal times keep their order. So the fixtures without a
  kickoff come after those that kick off before 1970-01-01T00:00:00Z and before those that
  kick off after it: they come first when every kickoff that is present lies after that
  instant. The example of the claim, kickoffs 18:00, \<^verbatim>\<open>null\<close>, 12:00, is the witness.
\<close>

theorem sortByKickoff_ascending:
  assumes valid: "\<forall>f\<in>set xs. kickoff_time e f \<noteq> None"
  shows "mset (sortByKickoff e xs) = mset xs
    \<and> sorted (map (kickoff_key e) (sortByKickoff e xs))
    \<and> (\<forall>f. kickoff_utc f = None \<longrightarrow> kickoff_key e f = 0)
    \<and> (\<forall>k. filter (\<lambda>f. kickoff_key e f = k) (sortByKickoff e xs)
              = filter (\<lambda>f. kickoff_key e f = k) xs)
    \<and> ((\<forall>f\<in>set xs. kickoff_utc f \<noteq> None \<longrightarrow> 0 < kickoff_key e f) \<longrightarrow>
          (\<forall>i j. i < j \<and> j < length xs \<and> kickoff_utc (sortByKickoff e xs ! j) = None
                  \<longrightarrow> kickoff_utc (sortByKickoff e xs ! i) = None))"
proof -
  let ?ys = "sortByKickoff e xs"
  have eq: "?ys = sort_key (kickoff_key e) xs"
    using valid by (simp add: sortByKickoff_def array_sort_sort_key list_all_iff)
  have perm: "mset ?ys = mset xs" and srt: "sorted (map (kickoff_key e) ?ys)"
    by (simp_all add: eq)
  have zero: "kickoff_key e f = 0" if "kickoff_utc f = None" for f
    using that by (simp add: kickoff_key_def kickoff_time_def)
  have stable: "filter (\<lambda>f. kickoff_key e f = k) ?ys = filter (\<lambda>f. kickoff_key e f = k) xs" for k
    by (simp add: eq sort_key_stable)
  have first: "kickoff_utc (?ys ! i) = None"
    if pos: "\<forall>f\<in>set xs. kickoff_utc f \<noteq> None \<longrightarrow> 0 < kickoff_key e f"
      and ij: "i < j" "j < length xs" and nul: "kickoff_utc (?ys ! j) = None" for i j
  proof (rule ccontr)
    assume non: "kickoff_utc (?ys ! i) \<noteq> None"
    have len: "length ?ys = length xs"
      by (simp add: eq)
    have "?ys ! i \<in> set xs"
      using ij len by (metis eq nth_mem order_less_trans set_sort)
    with pos non have "0 < kickoff_key e (?ys ! i)"
      by blast
    moreover have "kickoff_key e (?ys ! i) \<le> kickoff_key e (?ys ! j)"
      using srt ij len by (simp add: sorted_iff_nth_mono)
    ultimately show False
      using zero [OF nul] by simp
  qed
  show ?thesis
    using perm srt zero stable first by blast
qed

lemma iso_18: "iso_utc ''2025-01-01T18:00:00Z'' = Some 1735754400000"
  by (simp add: iso_utc_def is_digit_def dec_val_def digit_val_def MakeDay_def DayFromYear_def
      leap_year_def month_starts_def msPerDay_def)

lemma iso_12: "iso_utc ''2025-01-01T12:00:00Z'' = Some 1735732800000"
  by (simp add: iso_utc_def is_digit_def dec_val_def digit_val_def MakeDay_def DayFromYear_def
      leap_year_def month_starts_def msPerDay_def)

theorem sortByKickoff_ascending_witness:
  "sortByKickoff env0
     [demo_fixture (Some ''2025-01-01T18:00:00Z''), demo_fixture None,
      demo_fixture (Some ''2025-01-01T12:00:00Z'')]
     = [demo_fixture None, demo_fixture (Some ''2025-01-01T12:00:00Z''),
        demo_fixture (Some ''2025-01-01T18:00:00Z'')]
   \<and> map (kickoff_key env0)
       (sortByKickoff env0
          [demo_fixture (Some ''2025-01-01T18:00:00Z''), demo_fixture None,
           demo_fixture (Some ''2025-01-01T12:00:00Z'')])
     = [0, 1735732800000, 1735754400000]
   \<and> sorted (map (kickoff_key env0)
       (sortByKickoff env0
          [demo_fixture (Some ''2025-01-01T18:00:00Z''), demo_fixture None,
           demo_fixture (Some ''2025-01-01T12:00:00Z'')]))"
proof -
  let ?xs = "[demo_fixture (Some ''2025-01-01T18:00:00Z''), demo_fixture None,
      demo_fixture (Some ''2025-01-01T12:00:00Z'')]"
  have t: "kickoff_time env0 (demo_fixture (Some ''2025-01-01T18:00:00Z'')) = Some 1735754400000"
    "kickoff_time env0 (demo_fixture None) = Some 0"
    "kickoff_time env0 (demo_fixture (Some ''2025-01-01T12:00:00Z'')) = Some 1735732800000"
    by (simp_all add: kickoff_time_def demo_fixture_def Date_parse_def iso_18 iso_12)
  have valid: "\<forall>f\<in>set ?xs. kickoff_time env0 f \<noteq> None"
    by (simp add: t)
  have s: "sortByKickoff env0 ?xs = [demo_fixture None, demo_fixture (Some ''2025-01-01T12:00:00Z''),
        demo_fixture (Some ''2025-01-01T18:00:00Z'')]"
    by (simp add: sortByKickoff_def cmp_kickoff_def t)
  have k: "map (kickoff_key env0) (sortByKickoff env0 ?xs) = [0, 1735732800000, 1735754400000]"
    by (simp add: s kickoff_key_def t)
  from sortByKickoff_ascending [OF valid] have "sorted (map (kickoff_key env0) (sortByKickoff env0 ?xs))"
    by blast
  with s k show ?thesis
    by blast
qed

section \<open>The score extractor\<close>

text \<open>
  C3, as stated, fails in its last part: a current home record whose goals are the string
  \<^verbatim>\<open>abc\<close> gives the home score NaN, not 0. Only \<^verbatim>\<open>null\<close> and \<^verbatim>\<open>undefined\<close> are replaced by 0
  (\<^verbatim>\<open>??\<close>); any other value goes through \<^verbatim>\<open>Number\<close>.
\<close>

theorem non_numeric_goals_are_NaN:
  "currentScore env0
     (JArr [JObj [(''description'', JStr ''CURRENT''),
                  (''score'', JObj [(''participant'', JStr ''home''), (''goals'', JStr ''abc'')])]])
     = Inr (NaN, Fin 0)"
  by (simp add: currentScore_def score_step_def goals_of_def nullish_def StringToNumber_def
      is_digit_def is_letter_def)

lemma score_step_not_current: "\<not> is_current s \<Longrightarrow> score_step e s acc = Inr acc"
  by (simp add: score_step_def is_current_def)

lemma score_loop_filter: "score_loop e xs acc = score_loop e (filter is_current xs) acc"
  by (induction xs arbitrary: acc) (auto simp: score_step_not_current split: sum.splits)

lemma score_loop_none_current: "\<forall>s\<in>set xs. \<not> is_current s \<Longrightarrow> score_loop e xs acc = Inr acc"
  by (induction xs arbitrary: acc) (simp_all add: score_step_not_current)

lemma score_step_total:
  "score_step e s acc =
     (if tagged ''home'' s \<or> tagged ''away'' s then
        (case goals_of e s of
           Inl err \<Rightarrow> Inl err
         | Inr n \<Rightarrow> Inr (if tagged ''home'' s then n else fst acc,
                          if tagged ''away'' s then n else snd acc))
      else Inr acc)"
  by (auto simp: score_step_def tagged_def is_current_def split: sum.splits)

lemma last_tagged_Cons:
  "last_tagged tag (x # xs)
     = (case last_tagged tag xs of
          Some s \<Rightarrow> Some s
        | None \<Rightarrow> if tagged tag x then Some x else None)"
  by (auto simp: last_tagged_def split: list.splits)

lemma thrown_Nil: "thrown e [] = []"
  by (simp add: thrown_def)

lemma thrown_Cons:
  "thrown e (x # xs) =
     (if tagged ''home'' x \<or> tagged ''away'' x
      then (case goals_of e x of Inl err \<Rightarrow> [err] | Inr n \<Rightarrow> []) @ thrown e xs
      else thrown e xs)"
  by (simp add: thrown_def)

lemma score_loop_total:
  "score_loop e xs acc =
     (case thrown e xs of
        err # errs \<Rightarrow> Inl err
      | [] \<Rightarrow> Inr (case last_tagged ''home'' xs of None \<Rightarrow> fst acc | Some s \<Rightarrow> converted e s,
                   case last_tagged ''away'' xs of None \<Rightarrow> snd acc | Some s \<Rightarrow> converted e s))"
proof (induction xs arbitrary: acc)
  case Nil
  then show ?case by (simp add: last_tagged_def thrown_def)
next
  case (Cons x xs)
  show ?case
    by (simp add: score_step_total thrown_Cons Cons.IH last_tagged_Cons converted_def
        split: sum.splits list.splits option.splits)
qed

text \<open>
  C3, amended. For every array \<open>xs\<close> of score records: when \<^verbatim>\<open>Number(s.score.goals ?? 0)\<close> throws
  on a current record tagged home or away, the extractor throws the exception of the first such
  record in scan order (\<open>thrown e xs\<close> lists them; the conversion can throw only on goals that are
  an object or an array). Otherwise the result is the pair of the converted goals of the last
  current home record and of the last current away record in scan order, each 0 when there is
  no such record. Records not described exactly as \<^verbatim>\<open>CURRENT\<close> are not considered: removing them
  changes nothing. The result is \<open>(0, 0)\<close> when no record is current, when the array is empty
  and when the input is not an array (absent). Goals that are missing (\<^verbatim>\<open>undefined\<close> or \<^verbatim>\<open>null\<close>)
  convert to 0, and goals that are a number are kept.
\<close>

theorem currentScore_last_current:
  "currentScore e (JArr xs)
     = (case thrown e xs of
          err # errs \<Rightarrow> Inl err
        | [] \<Rightarrow> Inr (case last_tagged ''home'' xs of None \<Rightarrow> Fin 0 | Some s \<Rightarrow> converted e s,
                     case last_tagged ''away'' xs of None \<Rightarrow> Fin 0 | Some s \<Rightarrow> converted e s))
   \<and> (thrown e xs = []
        \<longleftrightarrow> (\<forall>s\<in>set xs. tagged ''home'' s \<or> tagged ''away'' s \<longrightarrow> goals_of e s = Inr (converted e s)))
   \<and> (\<forall>s err. goals_of e s = Inl err \<longrightarrow>
         (\<exists>kvs. field (field s ''score'') ''goals'' = JObj kvs)
         \<or> (\<exists>ys. field (field s ''score'') ''goals'' = JArr ys))
   \<and> currentScore e (JArr xs) = currentScore e (JArr (filter is_current xs))
   \<and> ((\<forall>s\<in>set xs. \<not> is_current s) \<longrightarrow> currentScore e (JArr xs) = Inr (Fin 0, Fin 0))
   \<and> currentScore e (JArr []) = Inr (Fin 0, Fin 0)
   \<and> (\<forall>v. (\<forall>ys. v \<noteq> JArr ys) \<longrightarrow> currentScore e v = Inr (Fin 0, Fin 0))
   \<and> (\<forall>s. field (field s ''score'') ''goals'' = Undefined \<or> field (field s ''score'') ''goals'' = Null
           \<longrightarrow> goals_of e s = Inr (Fin 0))
   \<and> (\<forall>s n. field (field s ''score'') ''goals'' = JNum n \<longrightarrow> goals_of e s = Inr n)"
proof -
  have a: "currentScore e (JArr xs)
     = (case thrown e xs of
          err # errs \<Rightarrow> Inl err
        | [] \<Rightarrow> Inr (case last_tagged ''home'' xs of None \<Rightarrow> Fin 0 | Some s \<Rightarrow> converted e s,
                     case last_tagged ''away'' xs of None \<Rightarrow> Fin 0 | Some s \<Rightarrow> converted e s))"
    by (simp add: currentScore_def score_loop_total split: list.splits option.splits)
  have t: "thrown e xs = []
        \<longleftrightarrow> (\<forall>s\<in>set xs. tagged ''home'' s \<or> tagged ''away'' s \<longrightarrow> goals_of e s = Inr (converted e s))"
    by (induction xs) (auto simp: thrown_Nil thrown_Cons converted_def split: sum.splits)
  have n: "(\<exists>kvs. field (field s ''score'') ''goals'' = JObj kvs)
         \<or> (\<exists>ys. field (field s ''score'') ''goals'' = JArr ys)"
    if "goals_of e s = Inl err" for s err
    using that by (cases "field (field s ''score'') ''goals''") (simp_all add: goals_of_def nullish_def)
  have b: "currentScore e (JArr xs) = currentScore e (JArr (filter is_current xs))"
    using score_loop_filter [of e xs] by (simp add: currentScore_def)
  have c: "currentScore e (JArr xs) = Inr (Fin 0, Fin 0)" if "\<forall>s\<in>set xs. \<not> is_current s"
    using score_loop_none_current [OF that] by (simp add: currentScore_def)
  have d: "currentScore e (JArr []) = Inr (Fin 0, Fin 0)"
    by (simp add: currentScore_def)
  have f: "currentScore e v = Inr (Fin 0, Fin 0)" if "\<forall>ys. v \<noteq> JArr ys" for v
    using that by (cases v) (simp_all add: currentScore_def)
  have h: "goals_of e s = Inr (Fin 0)"
    if "field (field s ''score'') ''goals'' = Undefined \<or> field (field s ''score'') ''goals'' = Null" for s
    using that by (auto simp: goals_of_def nullish_def)
  have i: "goals_of e s = Inr n" if "field (field s ''score'') ''goals'' = JNum n" for s n
    using that by (simp add: goals_of_def nullish_def)
  show ?thesis
    by (intro conjI allI impI) (rule a t b d | erule n c f h i)+
qed

theorem currentScore_last_current_witness:
  "currentScore env0
     (JArr [score_record ''1ST_HALF'' ''home'' (JNum (Fin 5)),
            score_record ''CURRENT'' ''home'' (JNum (Fin 2)),
            score_record ''CURRENT'' ''away'' (JNum (Fin 1))])
     = Inr (Fin 2, Fin 1)
   \<and> currentScore env0
        (JArr [score_record ''CURRENT'' ''home'' (JNum (Fin 2)),
               score_record ''CURRENT'' ''home'' Null,
               score_record ''FT'' ''away'' (JNum (Fin 4))])
     = Inr (Fin 0, Fin 0)
   \<and> currentScore env0
        (JArr [score_record ''CURRENT'' ''home'' (JObj [(''toString'', JNum (Fin 1))]),
               score_record ''CURRENT'' ''home'' (JNum (Fin 2))])
     = Inl TypeError
   \<and> currentScore env0
        (JArr [score_record ''FT'' ''home'' (JObj [(''toString'', JNum (Fin 1))]),
               score_record ''CURRENT'' ''draw'' (JObj [(''toString'', JNum (Fin 1))])])
     = Inr (Fin 0, Fin 0)
   \<and> currentScore env0 Undefined = Inr (Fin 0, Fin 0)"
proof -
  let ?xs = "[score_record ''1ST_HALF'' ''home'' (JNum (Fin 5)),
            score_record ''CURRENT'' ''home'' (JNum (Fin 2)),
            score_record ''CURRENT'' ''away'' (JNum (Fin 1))]"
  let ?ys = "[score_record ''CURRENT'' ''home'' (JNum (Fin 2)),
               score_record ''CURRENT'' ''home'' Null,
               score_record ''FT'' ''away'' (JNum (Fin 4))]"
  let ?zs = "[score_record ''CURRENT'' ''home'' (JObj [(''toString'', JNum (Fin 1))]),
               score_record ''CURRENT'' ''home'' (JNum (Fin 2))]"
  let ?ws = "[score_record ''FT'' ''home'' (JObj [(''toString'', JNum (Fin 1))]),
               score_record ''CURRENT'' ''draw'' (JObj [(''toString'', JNum (Fin 1))])]"
  have x: "currentScore env0 (JArr ?xs) = Inr (Fin 2, Fin 1)"
    using currentScore_last_current [of env0 ?xs, THEN conjunct1]
    by (simp add: thrown_def converted_def last_tagged_def tagged_def is_current_def
        score_record_def goals_of_def nullish_def)
  have y: "currentScore env0 (JArr ?ys) = Inr (Fin 0, Fin 0)"
    using currentScore_last_current [of env0 ?ys, THEN conjunct1]
    by (simp add: thrown_def converted_def last_tagged_def tagged_def is_current_def
        score_record_def goals_of_def nullish_def)
  have z: "currentScore env0 (JArr ?zs) = Inl TypeError"
    using currentScore_last_current [of env0 ?zs, THEN conjunct1]
    by (simp add: thrown_def converted_def last_tagged_def tagged_def is_current_def
        score_record_def goals_of_def nullish_def)
  have w: "currentScore env0 (JArr ?ws) = Inr (Fin 0, Fin 0)"
    using currentScore_last_current [of env0 ?ws, THEN conjunct1]
    by (simp add: thrown_def converted_def last_tagged_def tagged_def is_current_def
        score_record_def goals_of_def nullish_def)
  have u: "currentScore env0 Undefined = Inr (Fin 0, Fin 0)"
    using currentScore_last_current [of env0 "[]", THEN conjunct2, THEN conjunct2, THEN conjunct2,
        THEN conjunct2, THEN conjunct2, THEN conjunct2, THEN conjunct1, rule_format, of Undefined]
    by simp
  show ?thesis
    using x y z w u by blast
qed

section \<open>The fixture normalizer\<close>

text \<open>
  C4. \<^verbatim>\<open>mapFixture\<close> throws on a fixture whose \<^verbatim>\<open>participants\<close> is a truthy value that is not an
  array (here an object, then a string) and on one whose \<^verbatim>\<open>starting_at\<close> is a truthy value that
  is not a string (here a number); and one such fixture in a payload makes the whole mapping
  throw, the two well-formed fixtures around it included.
\<close>

theorem mapFixture_throws:
  "mapFixture env0 (JObj [(''id'', JNum (Fin 1)), (''participants'', JObj [(''data'', JArr [])])])
     = Inl TypeError
   \<and> mapFixture env0 (JObj [(''id'', JNum (Fin 1)), (''starting_at'', JNum (Fin 1756317600))])
     = Inl TypeError
   \<and> fixtures_of env0
        (JObj [(''data'', JArr [JObj [(''id'', JNum (Fin 1))],
                                JObj [(''id'', JNum (Fin 2)), (''participants'', JStr ''n/a'')],
                                JObj [(''id'', JNum (Fin 3))]])])
     = Inl TypeError"
  by (simp add: mapFixture_def js_or_def fixtures_of_def nullish_def find_location_def
      currentScore_def kickoffUTC_of_def)

text \<open>
  What does hold: \<^verbatim>\<open>mapFixture\<close> returns a fixture whenever \<^verbatim>\<open>participants\<close> is falsy or an array,
  \<^verbatim>\<open>starting_at\<close> is falsy or a string, and the score extraction does not throw; with
  \<^verbatim>\<open>participants\<close>, \<^verbatim>\<open>scores\<close> and \<^verbatim>\<open>starting_at\<close> missing it is the fixture with placeholder
  teams, no kickoff and the score 0 to 0.
\<close>

lemma mapFixture_defensive:
  assumes parts: "\<not> truthy (field fx ''participants'') \<or> (\<exists>ps. field fx ''participants'' = JArr ps)"
    and start: "\<not> truthy (field fx ''starting_at'') \<or> (\<exists>s. field fx ''starting_at'' = JStr s)"
    and scores: "currentScore e (js_or (field fx ''scores'') (JArr [])) = Inr sc"
  shows "\<exists>f. mapFixture e fx = Inr f"
proof -
  obtain ps where ps: "js_or (field fx ''participants'') (JArr []) = JArr ps"
    using parts by (auto simp: js_or_def)
  have "\<exists>k. kickoffUTC_of fx = Inr k"
    using start by (auto simp: kickoffUTC_of_def)
  then obtain k where k: "kickoffUTC_of fx = Inr k" ..
  show ?thesis
    by (simp add: mapFixture_def ps k scores Let_def)
qed

lemma mapFixture_missing_fields:
  assumes "\<not> truthy (field fx ''participants'')" and "\<not> truthy (field fx ''scores'')"
    and "\<not> truthy (field fx ''starting_at'')"
  shows "mapFixture e fx =
           Inr \<lparr>fixture_id = field fx ''id'', league_id = field fx ''league_id'',
                league_name = nullish (field (field fx ''league'') ''name'') Null,
                state_id = field fx ''state_id'', kickoff_utc = None, kickoff_bahrain = None,
                home = \<lparr>team_id = Undefined, name = Undefined, code = Undefined, logo = Undefined\<rparr>,
                away = \<lparr>team_id = Undefined, name = Undefined, code = Undefined, logo = Undefined\<rparr>,
                score_home = Fin 0, score_away = Fin 0\<rparr>"
  using assms
  by (simp add: mapFixture_def js_or_def find_location_def currentScore_def kickoffUTC_of_def
      team_of_def)

section \<open>The calendar\<close>

lemma int_div_bounds:
  fixes x k :: int
  assumes "0 < k"
  shows "k * (x div k) \<le> x" and "x \<le> k * (x div k) + (k - 1)"
proof -
  have "x = k * (x div k) + x mod k"
    by simp
  moreover have "0 \<le> x mod k" "x mod k < k"
    using assms by simp_all
  ultimately show "k * (x div k) \<le> x" and "x \<le> k * (x div k) + (k - 1)"
    by linarith+
qed

lemma DayFromYear_bounds:
  "146097 * (y - 1970) - 506 \<le> 400 * DayFromYear y"
  "400 * DayFromYear y \<le> 146097 * (y - 1970) + 589"
proof -
  define A B C where "A = (y - 1969) div 4" and "B = (y - 1901) div 100" and "C = (y - 1601) div 400"
  have a: "4 * A \<le> y - 1969" "y - 1969 \<le> 4 * A + 3"
    using int_div_bounds [of 4 "y - 1969"] by (simp_all add: A_def)
  have b: "100 * B \<le> y - 1901" "y - 1901 \<le> 100 * B + 99"
    using int_div_bounds [of 100 "y - 1901"] by (simp_all add: B_def)
  have c: "400 * C \<le> y - 1601" "y - 1601 \<le> 400 * C + 399"
    using int_div_bounds [of 400 "y - 1601"] by (simp_all add: C_def)
  have d: "DayFromYear y = 365 * (y - 1970) + A - B + C"
    by (simp add: DayFromYear_def A_def B_def C_def)
  show "146097 * (y - 1970) - 506 \<le> 400 * DayFromYear y"
    unfolding d using a b c by (simp add: algebra_simps)
  show "400 * DayFromYear y \<le> 146097 * (y - 1970) + 589"
    unfolding d using a b c by (simp add: algebra_simps)
qed

text \<open>
  \<open>YearFromDay\<close> is the year of the standard: the day \<open>d\<close> lies in the year it returns.
\<close>

lemma YearFromDay_year:
  "DayFromYear (YearFromDay d) \<le> d \<and> d < DayFromYear (YearFromDay d + 1)"
proof -
  define y where "y = 1970 + (400 * d) div 146097"
  have q: "146097 * (y - 1970) \<le> 400 * d" "400 * d \<le> 146097 * (y - 1970) + 146096"
    using int_div_bounds [of 146097 "400 * d"] by (simp_all add: y_def)
  have lo: "DayFromYear (y - 1) \<le> d"
    using DayFromYear_bounds(2) [of "y - 1"] q by (simp add: algebra_simps)
  have hi: "d < DayFromYear (y + 2)"
    using DayFromYear_bounds(1) [of "y + 2"] q by (simp add: algebra_simps)
  have yd: "YearFromDay d =
      (if DayFromYear (y + 1) \<le> d then y + 1 else if DayFromYear y \<le> d then y else y - 1)"
    by (simp add: YearFromDay_def y_def Let_def)
  have two: "y + 1 + 1 = y + 2"
    by simp
  show ?thesis
    using lo hi by (simp add: yd two)
qed

section \<open>The upcoming aggregation\<close>

lemma YearFromDay_ge: "0 \<le> d \<Longrightarrow> 1969 \<le> YearFromDay d"
proof -
  assume "0 \<le> d"
  then have "0 \<le> (400 * d) div 146097"
    by simp
  then show ?thesis
    by (simp add: YearFromDay_def Let_def)
qed

lemma Day_nonneg: "0 \<le> t \<Longrightarrow> 0 \<le> Day t"
  by (simp add: Day_def msPerDay_def)

lemma Day_le: "Day t * msPerDay \<le> t"
  by (simp add: Day_def msPerDay_def)

lemma MonthFromTime_le: "MonthFromTime t \<le> 11"
proof -
  have "MonthFromTime t \<le> length (drop 1 (month_starts (leap_year (YearFromTime t))))"
    unfolding MonthFromTime_def by (rule length_filter_le)
  then show ?thesis
    by (simp add: month_starts_def Let_def)
qed

lemma MakeDay_today:
  "MakeDay (YearFromTime t) (int (MonthFromTime t)) (DateFromTime t + i) = Day t + i"
proof -
  have m: "int (MonthFromTime t) div 12 = 0" "nat (int (MonthFromTime t) mod 12) = MonthFromTime t"
    using MonthFromTime_le [of t] by simp_all
  show ?thesis
    by (simp add: MakeDay_def Let_def m DateFromTime_def DayWithinYear_def)
qed

lemma Date_UTC_today:
  assumes "clock_ok t" and "i \<le> 14"
  shows "Date_UTC (YearFromTime t) (int (MonthFromTime t)) (DateFromTime t + int i)
           = Some ((Day t + int i) * msPerDay)"
proof -
  have y: "1969 \<le> YearFromTime t"
    using assms(1) by (simp add: YearFromTime_def YearFromDay_ge Day_nonneg clock_ok_def)
  have lo: "0 \<le> (Day t + int i) * msPerDay"
    using assms(1) by (simp add: Day_nonneg clock_ok_def msPerDay_def)
  have "(Day t + int i) * msPerDay = Day t * msPerDay + int i * msPerDay"
    by (simp add: algebra_simps)
  also have "\<dots> \<le> t + 14 * msPerDay"
    using Day_le [of t] assms(2) by (simp add: msPerDay_def)
  finally have hi: "(Day t + int i) * msPerDay \<le> 8640000000000000"
    using assms(1) by (simp add: clock_ok_def)
  show ?thesis
    using y lo hi by (simp add: Date_UTC_def Let_def MakeDay_today TimeClip_def)
qed

lemma toISOString_Some: "toISOString (Some t) = Inr s \<Longrightarrow> take 10 s = iso_date t"
  by (simp add: iso_date_def)

lemma toISOString_total: "\<exists>s. toISOString (Some t) = Inr s"
  by (simp add: toISOString_def Let_def)

lemma clamp_days_cases: "clamp_days n = NaN \<or> (\<exists>r. clamp_days n = Fin r \<and> 1 \<le> r \<and> r \<le> 14)"
  by (cases n) (auto simp: clamp_days_def Math_max_def Math_min_def)

lemma loop_test: "num_lt (Fin (of_nat j)) (clamp_days n) = (j < iterations n)"
proof -
  consider "clamp_days n = NaN" | r where "clamp_days n = Fin r" "1 \<le> r"
    using clamp_days_cases by blast
  then show ?thesis
  proof cases
    case 1
    then show ?thesis by (simp add: iterations_def)
  next
    case 2
    have "(of_nat j < r) = (int j < \<lceil>r\<rceil>)"
      by (simp add: less_ceiling_iff)
    also have "\<dots> = (j < nat \<lceil>r\<rceil>)"
      using 2(2) by linarith
    finally show ?thesis
      by (simp add: 2(1) iterations_def)
  qed
qed

lemma iterations_le: "iterations n \<le> 14"
proof -
  consider "clamp_days n = NaN" | r where "clamp_days n = Fin r" "r \<le> 14"
    using clamp_days_cases by blast
  then show ?thesis
  proof cases
    case 1
    then show ?thesis by (simp add: iterations_def)
  next
    case 2
    have "\<lceil>r\<rceil> \<le> 14"
      using 2(2) by (simp add: ceiling_le_iff)
    then have "nat \<lceil>r\<rceil> \<le> 14"
      by linarith
    then show ?thesis
      by (simp add: 2(1) iterations_def)
  qed
qed

lemma iterations_int: "iterations (Fin (of_int d)) = nat (max 1 (min 14 d))"
  by (auto simp: iterations_def clamp_days_def Math_max_def Math_min_def max_def min_def)

lemma clamp_days_int: "clamp_days (Fin (of_int d)) = Fin (of_int (max 1 (min 14 d)))"
  by (auto simp: clamp_days_def Math_max_def Math_min_def max_def min_def)

lemma upcoming_loop_step:
  assumes "clock_ok today"
  shows "upcoming_loop e up today n i out urls =
     (if i < iterations n then
        (case fetch_json (up (day_url e today i)) of
           Inl err \<Rightarrow> (Inl err, urls @ [day_url e today i])
         | Inr raw \<Rightarrow>
             (case fixtures_of e raw of
                Inl err \<Rightarrow> (Inl err, urls @ [day_url e today i])
              | Inr fixtures \<Rightarrow>
                  upcoming_loop e up today n (i + 1)
                    (if fixtures \<noteq> []
                     then out @ [day_entry e (iso_date ((Day today + int i) * msPerDay)) fixtures]
                     else out)
                    (urls @ [day_url e today i])))
      else (Inr out, urls))"
proof (cases "i < iterations n")
  case False
  then show ?thesis
    by (subst upcoming_loop.simps) (simp add: loop_test)
next
  case True
  then have "i \<le> 14"
    using iterations_le [of n] by simp
  then have d: "Date_UTC (YearFromTime today) (int (MonthFromTime today)) (DateFromTime today + int i)
             = Some ((Day today + int i) * msPerDay)"
    using assms by (rule Date_UTC_today [rotated])
  obtain s where s: "toISOString (Some ((Day today + int i) * msPerDay)) = Inr s"
    using toISOString_total by blast
  have t: "take 10 s = iso_date ((Day today + int i) * msPerDay)"
    using s by (rule toISOString_Some)
  show ?thesis
    by (subst upcoming_loop.simps) (simp add: loop_test True d s t day_url_def split: sum.splits)
qed

text \<open>
  The loop from counter \<open>i\<close>, when every remaining day succeeds: it requests the remaining
  days in order and appends the entries of those that have fixtures.
\<close>

lemma upcoming_loop_ok:
  assumes clock: "clock_ok today"
    and ok: "\<forall>j. i \<le> j \<and> j < iterations n \<longrightarrow> day_ok e up today fx j"
    and le: "i \<le> iterations n"
  shows "upcoming_loop e up today n i out urls
           = (Inr (out @ schedule_from e today fx i (iterations n)),
              urls @ map (day_url e today) [i..<iterations n])"
  using ok le
proof (induction "iterations n - i" arbitrary: i out urls)
  case 0
  then have "i = iterations n"
    by simp
  then show ?case
    by (subst upcoming_loop_step [OF clock]) (simp add: schedule_from_def)
next
  case (Suc d)
  then have lt: "i < iterations n"
    by simp
  then have "day_ok e up today fx i"
    using Suc.prems by simp
  then obtain raw where raw: "fetch_json (up (day_url e today i)) = Inr raw"
    and fx: "fixtures_of e raw = Inr (fx i)"
    by (auto simp: day_ok_def split: sum.splits)
  have rest: "\<forall>j. Suc i \<le> j \<and> j < iterations n \<longrightarrow> day_ok e up today fx j"
    using Suc.prems by simp
  have d: "d = iterations n - Suc i"
    using Suc.hyps(2) by simp
  have le': "Suc i \<le> iterations n"
    using lt by simp
  note ih = Suc.hyps(1) [OF d rest le', unfolded schedule_from_def]
  show ?case
    by (subst upcoming_loop_step [OF clock])
      (simp add: lt raw fx ih schedule_from_def upt_conv_Cons)
qed

text \<open>
  The loop from counter \<open>i\<close>, when day \<open>k\<close> is the first to fail: the exception leaves the loop
  after the request for day \<open>k\<close>; no later day is requested and no schedule is returned.
\<close>

lemma upcoming_loop_fails:
  assumes clock: "clock_ok today"
    and k: "k < iterations n"
    and ok: "\<forall>j. i \<le> j \<and> j < k \<longrightarrow> day_ok e up today fx j"
    and bad: "day_fails e up today err k"
    and le: "i \<le> k"
  shows "upcoming_loop e up today n i out urls
           = (Inl err, urls @ map (day_url e today) [i..<Suc k])"
  using ok le
proof (induction "k - i" arbitrary: i out urls)
  case 0
  then have i: "i = k"
    by simp
  show ?case
    using bad k
    by (subst upcoming_loop_step [OF clock]) (auto simp: i day_fails_def split: sum.splits)
next
  case (Suc d)
  then have lt: "i < k"
    by simp
  then have "day_ok e up today fx i"
    using Suc.prems by simp
  then obtain raw where raw: "fetch_json (up (day_url e today i)) = Inr raw"
    and fx: "fixtures_of e raw = Inr (fx i)"
    by (auto simp: day_ok_def split: sum.splits)
  have rest: "\<forall>j. Suc i \<le> j \<and> j < k \<longrightarrow> day_ok e up today fx j"
    using Suc.prems by simp
  have d: "d = k - Suc i"
    using Suc.hyps(2) by simp
  have le': "Suc i \<le> k"
    using lt by simp
  note ih = Suc.hyps(1) [OF d rest le']
  have "i < iterations n"
    using lt k by simp
  then show ?case
    using lt by (subst upcoming_loop_step [OF clock]) (simp add: raw fx ih upt_conv_Cons)
qed

lemma length_schedule_from: "length (schedule_from e today fx i m) \<le> m - i"
proof -
  have "length (filter (\<lambda>j. fx j \<noteq> []) [i..<m]) \<le> length [i..<m]"
    by (rule length_filter_le)
  then show ?thesis
    by (simp add: schedule_from_def)
qed

text \<open>
  The upcoming handler on a miss when every day succeeds: the response carries the clamped day
  count and the entries of the days that have fixtures, in the order of the days (so at most one
  entry per iteration); the days requested are \<open>iterations n\<close> consecutive UTC calendar days
  from today. For a day count that is an integer \<open>d\<close> that is \<open>max 1 (min 14 d)\<close> days
  (\<open>iterations_int\<close>), 7 when the parameter is absent (\<open>Number_days_absent\<close>).
\<close>

lemma upcoming_all_days:
  assumes clock: "clock_ok t_new"
    and num: "Number e (nullish (field (field req ''query'') ''days'') (JNum (Fin 7))) = Inr n"
    and miss: "\<not> truthy (get (''fixtures:upcoming:'' @ num_toString e (clamp_days n)) t_get c)"
    and ok: "\<forall>j. j < iterations n \<longrightarrow> day_ok e up t_new fx j"
  shows "reply (handler_upcoming e up t_get t_new t_put req c)
           = Inr (JObj [(''days'', JNum (clamp_days n)),
                        (''schedule'', JArr (schedule_from e t_new fx 0 (iterations n)))])"
    and "fetched (handler_upcoming e up t_get t_new t_put req c)
           = map (day_url e t_new) [0..<iterations n]"
    and "length (schedule_from e t_new fx 0 (iterations n)) \<le> iterations n"
proof -
  have loop: "upcoming_loop e up t_new n 0 [] []
                = (Inr (schedule_from e t_new fx 0 (iterations n)),
                   map (day_url e t_new) [0..<iterations n])"
    using upcoming_loop_ok [OF clock, of 0 n e up fx "[]" "[]"] ok by simp
  show "reply (handler_upcoming e up t_get t_new t_put req c)
           = Inr (JObj [(''days'', JNum (clamp_days n)),
                        (''schedule'', JArr (schedule_from e t_new fx 0 (iterations n)))])"
    using miss by (simp add: handler_upcoming_def num Let_def loop)
  show "fetched (handler_upcoming e up t_get t_new t_put req c)
           = map (day_url e t_new) [0..<iterations n]"
    using miss by (simp add: handler_upcoming_def num Let_def loop)
  show "length (schedule_from e t_new fx 0 (iterations n)) \<le> iterations n"
    using length_schedule_from [of e t_new fx 0 "iterations n"] by simp
qed

lemma upcoming_fail_fast:
  assumes clock: "clock_ok t_new"
    and num: "Number e (nullish (field (field req ''query'') ''days'') (JNum (Fin 7))) = Inr n"
    and miss: "\<not> truthy (get (''fixtures:upcoming:'' @ num_toString e (clamp_days n)) t_get c)"
    and k: "k < iterations n"
    and ok: "\<forall>j. j < k \<longrightarrow> day_ok e up t_new fx j"
    and bad: "day_fails e up t_new err k"
  shows "handler_upcoming e up t_get t_new t_put req c
           = failed err c (map (day_url e t_new) [0..<Suc k])"
proof -
  have loop: "upcoming_loop e up t_new n 0 [] [] = (Inl err, map (day_url e t_new) [0..<Suc k])"
    using upcoming_loop_fails [OF clock k _ bad, of 0 fx "[]" "[]"] ok by simp
  show ?thesis
    using miss by (simp add: handler_upcoming_def num Let_def loop)
qed

lemma Number_days_absent:
  "field (field req ''query'') ''days'' = Undefined \<or> field (field req ''query'') ''days'' = Null \<Longrightarrow>
   Number e (nullish (field (field req ''query'') ''days'') (JNum (Fin 7))) = Inr (Fin 7)"
  by (auto simp: nullish_def)

lemma setUTCDate_tomorrow:
  assumes "clock_ok t"
  shows "setUTCDate t (DateFromTime t + 1) = Some (t + msPerDay)"
proof -
  have eq: "(Day t + 1) * msPerDay + t mod msPerDay = t + msPerDay"
    by (simp add: Day_def algebra_simps)
  have "\<bar>t + msPerDay\<bar> \<le> 8640000000000000"
    using assms by (simp add: clock_ok_def msPerDay_def)
  then show ?thesis
    using MakeDay_today [of t 1] by (simp add: setUTCDate_def eq TimeClip_def)
qed

text \<open>
  The loop depends on \<open>n\<close> through the clamped day count only, so two values of the parameter
  with the same clamped count behave alike: \<^verbatim>\<open>days=0\<close> as \<^verbatim>\<open>days=1\<close>, \<^verbatim>\<open>days=99\<close> as \<^verbatim>\<open>days=14\<close>, and
  no parameter as \<^verbatim>\<open>days=7\<close>.
\<close>

lemma upcoming_loop_clamp:
  assumes "clamp_days n = clamp_days n'"
  shows "upcoming_loop e up today n i out urls = upcoming_loop e up today n' i out urls"
  using assms
proof (induction e up today n i out urls rule: upcoming_loop.induct)
  case (1 e up today n i out urls)
  have test: "num_lt (Fin (of_nat i)) (clamp_days n') = num_lt (Fin (of_nat i)) (clamp_days n)"
    using "1.prems" by simp
  show ?case
  proof (cases "num_lt (Fin (of_nat i)) (clamp_days n)")
    case False
    then show ?thesis
      by (simp add: upcoming_loop.simps [of e up today n i] upcoming_loop.simps [of e up today n' i]
          test)
  next
    case True
    note ih = "1.IH" [OF True _ _ _ "1.prems"]
    show ?thesis
      using ih
      by (simp add: upcoming_loop.simps [of e up today n i] upcoming_loop.simps [of e up today n' i]
          test True split: sum.splits)
  qed
qed

lemma upcoming_same_clamp:
  assumes "Number e (nullish (field (field req ''query'') ''days'') (JNum (Fin 7))) = Inr n"
    and "Number e (nullish (field (field req' ''query'') ''days'') (JNum (Fin 7))) = Inr n'"
    and "clamp_days n = clamp_days n'"
  shows "handler_upcoming e up t_get t_new t_put req c = handler_upcoming e up t_get t_new t_put req' c"
proof -
  have "upcoming_loop e up t_new n 0 [] [] = upcoming_loop e up t_new n' 0 [] []"
    using assms(3) by (rule upcoming_loop_clamp)
  then show ?thesis
    by (simp add: handler_upcoming_def assms Let_def)
qed

lemma Number_days_query:
  "Number e (nullish (field (field (days_query ''0'') ''query'') ''days'') (JNum (Fin 7))) = Inr (Fin 0)"
  "Number e (nullish (field (field (days_query ''1'') ''query'') ''days'') (JNum (Fin 7))) = Inr (Fin 1)"
  "Number e (nullish (field (field (days_query ''7'') ''query'') ''days'') (JNum (Fin 7))) = Inr (Fin 7)"
  "Number e (nullish (field (field (days_query ''14'') ''query'') ''days'') (JNum (Fin 7))) = Inr (Fin 14)"
  "Number e (nullish (field (field (days_query ''99'') ''query'') ''days'') (JNum (Fin 7))) = Inr (Fin 99)"
  "Number e (nullish (field (field (JObj [(''query'', JObj [])]) ''query'') ''days'') (JNum (Fin 7))) = Inr (Fin 7)"
  by (simp_all add: days_query_def nullish_def StringToNumber_def is_digit_def dec_val_def digit_val_def)

lemma upcoming_clamp_examples:
  "handler_upcoming e up t_get t_new t_put (days_query ''0'') c
     = handler_upcoming e up t_get t_new t_put (days_query ''1'') c"
  "handler_upcoming e up t_get t_new t_put (days_query ''99'') c
     = handler_upcoming e up t_get t_new t_put (days_query ''14'') c"
  "handler_upcoming e up t_get t_new t_put (JObj [(''query'', JObj [])]) c
     = handler_upcoming e up t_get t_new t_put (days_query ''7'') c"
  by (rule upcoming_same_clamp, rule Number_days_query, rule Number_days_query,
      simp add: clamp_days_def Math_max_def Math_min_def)+

text \<open>
  For a parameter that converts to an integer \<open>d\<close>, the day count is \<open>max 1 (min 14 d)\<close> and the
  handler requests exactly that many consecutive UTC calendar days from today.
\<close>

lemma upcoming_integer_days:
  assumes clock: "clock_ok t_new"
    and num: "Number e (nullish (field (field req ''query'') ''days'') (JNum (Fin 7))) = Inr (Fin (of_int d))"
    and miss: "\<not> truthy (get (''fixtures:upcoming:'' @ num_toString e (clamp_days (Fin (of_int d)))) t_get c)"
    and ok: "\<forall>j. j < nat (max 1 (min 14 d)) \<longrightarrow> day_ok e up t_new fx j"
  shows "reply (handler_upcoming e up t_get t_new t_put req c)
           = Inr (JObj [(''days'', JNum (Fin (of_int (max 1 (min 14 d))))),
                        (''schedule'', JArr (schedule_from e t_new fx 0 (nat (max 1 (min 14 d)))))])"
    and "fetched (handler_upcoming e up t_get t_new t_put req c)
           = map (day_url e t_new) [0..<nat (max 1 (min 14 d))]"
    and "length (schedule_from e t_new fx 0 (nat (max 1 (min 14 d)))) \<le> nat (max 1 (min 14 d))"
proof -
  have ok': "\<forall>j. j < iterations (Fin (of_int d)) \<longrightarrow> day_ok e up t_new fx j"
    using ok by (simp add: iterations_int)
  note all = upcoming_all_days [OF clock num miss ok']
  show "reply (handler_upcoming e up t_get t_new t_put req c)
           = Inr (JObj [(''days'', JNum (Fin (of_int (max 1 (min 14 d))))),
                        (''schedule'', JArr (schedule_from e t_new fx 0 (nat (max 1 (min 14 d)))))])"
    using all(1) [of t_put] by (simp add: iterations_int clamp_days_int)
  show "fetched (handler_upcoming e up t_get t_new t_put req c)
           = map (day_url e t_new) [0..<nat (max 1 (min 14 d))]"
    using all(2) [of t_put] by (simp add: iterations_int)
  show "length (schedule_from e t_new fx 0 (nat (max 1 (min 14 d)))) \<le> nat (max 1 (min 14 d))"
    using all(3) by (simp add: iterations_int)
qed

section \<open>Upstream failures\<close>

text \<open>
  C8, as stated, fails: an upstream answer with status 429 and a JSON error body is not a
  failure to the handler. The request succeeds with an empty fixture list, and that response
  is in the cache for the next 60 seconds.
\<close>

theorem error_status_is_cached:
  "reply (handler_date env0
            (\<lambda>u. Response 429 (Some (JObj [(''message'', JStr ''Too Many Attempts.'')])))
            1000 1200 ''2025-08-27'' Map.empty)
     = Inr (JObj [(''date_utc'', JStr ''2025-08-27''), (''fixtures'', JArr [])])
   \<and> get ''fixtures:date:2025-08-27'' 61199
        (cache_after (handler_date env0
            (\<lambda>u. Response 429 (Some (JObj [(''message'', JStr ''Too Many Attempts.'')])))
            1000 1200 ''2025-08-27'' Map.empty))
     = JObj [(''date_utc'', JStr ''2025-08-27''), (''fixtures'', JArr [])]"
  by (simp add: handler_date_def Let_def get_def put_def fetch_json_def fixtures_of_def
      nullish_def daily_def sortByKickoff_def)

lemma read_through_failure:
  "read_through cv store c out \<Longrightarrow> reply out = Inl err \<Longrightarrow> cache_after out = c"
  by (auto simp: read_through_def hit_def split: if_splits)

lemma upcoming_failure_keeps_cache:
  assumes "reply (handler_upcoming e up t n p req c) = Inl err"
  shows "cache_after (handler_upcoming e up t n p req c) = c"
proof (cases "Number e (nullish (field (field req ''query'') ''days'') (JNum (Fin 7)))")
  case (Inl a)
  then show ?thesis
    by (simp add: handler_upcoming_def failed_def)
next
  case (Inr m)
  then show ?thesis
    using read_through_upcoming [OF Inr] assms by (rule_tac read_through_failure)
qed

lemma today_throws:
  assumes "\<not> truthy (get ''fixtures:today:simple'' t c)"
    and "fetch_json (up (date_url e (iso_date n))) = Inl err"
  shows "handler_today e up t n p c = failed err c [date_url e (iso_date n)]"
proof -
  obtain s where s: "toISOString (Some n) = Inr s"
    using toISOString_total by blast
  show ?thesis
    using assms by (simp add: handler_today_def Let_def s toISOString_Some [OF s])
qed

lemma tomorrow_throws:
  assumes "clock_ok n"
    and "\<not> truthy (get ''fixtures:tomorrow'' t c)"
    and "fetch_json (up (date_url e (iso_date (n + msPerDay)))) = Inl err"
  shows "handler_tomorrow e up t n p c = failed err c [date_url e (iso_date (n + msPerDay))]"
proof -
  obtain s where s: "toISOString (Some (n + msPerDay)) = Inr s"
    using toISOString_total by blast
  show ?thesis
    using assms(2,3)
    by (simp add: handler_tomorrow_def Let_def setUTCDate_tomorrow [OF assms(1)] s
        toISOString_Some [OF s])
qed

lemma live_throws:
  assumes "\<not> truthy (get ''live:simple'' t c)" and "fetch_json (up (live_url e)) = Inl err"
  shows "handler_live e up t p c = failed err c [live_url e]"
  using assms by (simp add: handler_live_def Let_def)

lemma date_throws:
  assumes "\<not> truthy (get (''fixtures:date:'' @ date) t c)"
    and "fetch_json (up (date_url e date)) = Inl err"
  shows "handler_date e up t p date c = failed err c [date_url e date]"
  using assms by (simp add: handler_date_def Let_def)

lemma match_throws:
  assumes "\<not> truthy (get (''match:'' @ mid) t c)" and "fetch_json (up (match_url e mid)) = Inl err"
  shows "handler_match e up t p mid c = failed err c [match_url e mid]"
  using assms by (simp add: handler_match_def Let_def)

text \<open>
  C8, amended. When an upstream request throws (a network failure, or a body that is not
  JSON), the handler fails the inbound request with that error and leaves the cache as it was:
  that holds for the today, tomorrow, live, date and match handlers on a miss, and any failed
  run of any of the six handlers leaves the cache unchanged, so a thrown fetch never populates
  it. In the upcoming aggregation the first day whose request (or normalization) throws ends
  the aggregation: the days before it were requested, no day after it is, no schedule is
  returned and nothing is stored. A non-success status with a JSON body does not throw and is
  outside this statement.
\<close>

theorem thrown_fetch_fails_request:
  assumes clock: "clock_ok t_new"
    and num: "Number e (nullish (field (field req ''query'') ''days'') (JNum (Fin 7))) = Inr n"
    and miss: "\<not> truthy (get (''fixtures:upcoming:'' @ num_toString e (clamp_days n)) t_get c)"
    and k: "k < iterations n"
    and ok: "\<forall>j. j < k \<longrightarrow> day_ok e up t_new fx j"
    and bad: "day_fails e up t_new err k"
  shows "handler_upcoming e up t_get t_new t_put req c
           = failed err c (map (day_url e t_new) [0..<Suc k])
    \<and> (\<not> truthy (get ''fixtures:today:simple'' t c')
          \<and> fetch_json (up' (date_url e (iso_date t_new))) = Inl err'
        \<longrightarrow> handler_today e up' t t_new p c' = failed err' c' [date_url e (iso_date t_new)])
    \<and> (\<not> truthy (get ''fixtures:tomorrow'' t c')
          \<and> fetch_json (up' (date_url e (iso_date (t_new + msPerDay)))) = Inl err'
        \<longrightarrow> handler_tomorrow e up' t t_new p c'
              = failed err' c' [date_url e (iso_date (t_new + msPerDay))])
    \<and> (\<not> truthy (get ''live:simple'' t c') \<and> fetch_json (up' (live_url e)) = Inl err'
        \<longrightarrow> handler_live e up' t p c' = failed err' c' [live_url e])
    \<and> (\<not> truthy (get (''fixtures:date:'' @ date) t c') \<and> fetch_json (up' (date_url e date)) = Inl err'
        \<longrightarrow> handler_date e up' t p date c' = failed err' c' [date_url e date])
    \<and> (\<not> truthy (get (''match:'' @ mid) t c') \<and> fetch_json (up' (match_url e mid)) = Inl err'
        \<longrightarrow> handler_match e up' t p mid c' = failed err' c' [match_url e mid])
    \<and> (reply (handler_today e up' t t' p c') = Inl err'
        \<longrightarrow> cache_after (handler_today e up' t t' p c') = c')
    \<and> (reply (handler_tomorrow e up' t t' p c') = Inl err'
        \<longrightarrow> cache_after (handler_tomorrow e up' t t' p c') = c')
    \<and> (reply (handler_live e up' t p c') = Inl err'
        \<longrightarrow> cache_after (handler_live e up' t p c') = c')
    \<and> (reply (handler_date e up' t p date c') = Inl err'
        \<longrightarrow> cache_after (handler_date e up' t p date c') = c')
    \<and> (reply (handler_upcoming e up' t t' p req' c') = Inl err'
        \<longrightarrow> cache_after (handler_upcoming e up' t t' p req' c') = c')
    \<and> (reply (handler_match e up' t p mid c') = Inl err'
        \<longrightarrow> cache_after (handler_match e up' t p mid c') = c')"
proof -
  have up: "handler_upcoming e up t_get t_new t_put req c
              = failed err c (map (day_url e t_new) [0..<Suc k])"
    using clock num miss k ok bad by (rule upcoming_fail_fast)
  show ?thesis
    by (intro conjI impI up; (elim conjE)?)
      (erule today_throws tomorrow_throws [OF clock] live_throws date_throws match_throws
         upcoming_failure_keeps_cache
         read_through_failure [OF read_through_today] read_through_failure [OF read_through_tomorrow]
         read_through_failure [OF read_through_live] read_through_failure [OF read_through_date]
         read_through_failure [OF read_through_match], assumption?)+
qed


lemmas calendar_defs =
  iso_date_def toISOString_def YearFromTime_def YearFromDay_def Day_def msPerDay_def
  DayFromYear_def MonthFromTime_def DateFromTime_def DayWithinYear_def leap_year_def
  month_starts_def pad_def Let_def

lemma demo_dates:
  "iso_date ((Day 1756300000000 + int 0) * msPerDay) = ''2025-08-27''"
  "iso_date ((Day 1756300000000 + int 1) * msPerDay) = ''2025-08-28''"
  "iso_date ((Day 1756300000000 + int 2) * msPerDay) = ''2025-08-29''"
  by (simp_all add: calendar_defs numeral_2_eq_2)

lemma demo_clock: "clock_ok 1756300000000"
  by (simp add: clock_ok_def msPerDay_def)

lemma demo_urls:
  "day_url env0 1756300000000 0 = ''https://api.sportmonks.com/v3/football/fixtures/date/2025-08-27?api_token=KEY&include=participants;league;scores&locale=ar''"
  "day_url env0 1756300000000 1 = ''https://api.sportmonks.com/v3/football/fixtures/date/2025-08-28?api_token=KEY&include=participants;league;scores&locale=ar''"
  "day_url env0 1756300000000 2 = ''https://api.sportmonks.com/v3/football/fixtures/date/2025-08-29?api_token=KEY&include=participants;league;scores&locale=ar''"
  "day_url env0 1756300000000 (Suc 0) = ''https://api.sportmonks.com/v3/football/fixtures/date/2025-08-28?api_token=KEY&include=participants;league;scores&locale=ar''"
  using demo_dates by (simp_all add: day_url_def date_url_def env0_def)

lemma Number_demo_days:
  "Number env0 (nullish (field (field (JObj [(''query'', JObj [(''days'', JStr ''3'')])]) ''query'') ''days'')
     (JNum (Fin 7))) = Inr (Fin 3)"
  "Number env0 (nullish (field (field (JObj [(''query'', JObj [(''days'', JStr ''abc'')])]) ''query'') ''days'')
     (JNum (Fin 7))) = Inr NaN"
  "Number env0 (nullish (field (field (JObj [(''query'', JObj [(''days'', JStr ''2.5'')])]) ''query'') ''days'')
     (JNum (Fin 7))) = Inr (Fin (5 / 2))"
  by (simp_all add: nullish_def StringToNumber_def is_digit_def is_letter_def dec_val_def digit_val_def)

lemma ceiling_demo: "\<lceil>5 / 2 :: rat\<rceil> = 3"
  by (rule ceiling_unique) simp_all

lemma demo_iterations:
  "iterations (Fin 3) = 3" "iterations NaN = 0" "iterations (Fin (5 / 2)) = 3"
  "clamp_days (Fin 3) = Fin 3" "clamp_days NaN = NaN" "clamp_days (Fin (5 / 2)) = Fin (5 / 2)"
  by (simp_all add: iterations_def clamp_days_def Math_max_def Math_min_def ceiling_demo)

theorem thrown_fetch_fails_request_witness:
  "handler_upcoming env0
     (\<lambda>u. if u = ''https://api.sportmonks.com/v3/football/fixtures/date/2025-08-28?api_token=KEY&include=participants;league;scores&locale=ar''
          then NetworkFailure else Response 200 (Some demo_raw))
     1756300000000 1756300000000 1756300000900
     (JObj [(''query'', JObj [(''days'', JStr ''3'')])]) Map.empty
   = failed NetworkError Map.empty
       [''https://api.sportmonks.com/v3/football/fixtures/date/2025-08-27?api_token=KEY&include=participants;league;scores&locale=ar'',
        ''https://api.sportmonks.com/v3/football/fixtures/date/2025-08-28?api_token=KEY&include=participants;league;scores&locale=ar'']"
proof -
  let ?up = "\<lambda>u. if u = ''https://api.sportmonks.com/v3/football/fixtures/date/2025-08-28?api_token=KEY&include=participants;league;scores&locale=ar''
          then NetworkFailure else Response 200 (Some demo_raw)"
  let ?fx = "\<lambda>j::nat. [\<lparr>fixture_id = JNum (Fin 1), league_id = Undefined, league_name = Null,
           state_id = Undefined, kickoff_utc = None, kickoff_bahrain = None,
           home = team_of (JObj []), away = team_of (JObj []),
           score_home = Fin 0, score_away = Fin 0\<rparr>]"
  have miss: "\<not> truthy (get (''fixtures:upcoming:'' @ num_toString env0 (clamp_days (Fin 3)))
                 1756300000000 Map.empty)"
    by (simp add: get_def)
  have k: "1 < iterations (Fin 3)"
    by (simp add: demo_iterations)
  have ok: "\<forall>j. j < 1 \<longrightarrow> day_ok env0 ?up 1756300000000 ?fx j"
    by (simp add: day_ok_def demo_urls fetch_json_def fixtures_of_demo)
  have bad: "day_fails env0 ?up 1756300000000 NetworkError 1"
    by (simp add: day_fails_def demo_urls fetch_json_def)
  have "[0..<Suc 1] = [0, 1]"
    by (simp add: upt_rec)
  then show ?thesis
    using thrown_fetch_fails_request [OF demo_clock Number_demo_days(1) miss k ok bad,
        THEN conjunct1, of 1756300000900]
    by (simp add: demo_urls)
qed

section \<open>One upstream request within the time to live\<close>

text \<open>
  A miss that succeeds, in each handler: the run makes the upstream requests of the endpoint,
  returns the assembled response and stores it under the key of the endpoint with its time to
  live.
\<close>

lemma today_stores:
  assumes "\<not> truthy (get ''fixtures:today:simple'' t c)"
    and "fetch_json (up (date_url e (iso_date n))) = Inr raw"
    and "fixtures_of e raw = Inr fx"
  shows "handler_today e up t n p c
           = stored ''fixtures:today:simple'' (daily e (iso_date n) fx) 60000 p c
               [date_url e (iso_date n)]"
proof -
  obtain s where s: "toISOString (Some n) = Inr s"
    using toISOString_total by blast
  have d: "take 10 s = iso_date n"
    using s by (rule toISOString_Some)
  show ?thesis
    using assms by (simp add: handler_today_def Let_def s d stored_def)
qed

lemma live_stores:
  assumes "\<not> truthy (get ''live:simple'' t c)"
    and "fetch_json (up (live_url e)) = Inr raw"
    and "fixtures_of e raw = Inr fx"
  shows "handler_live e up t p c
           = stored ''live:simple'' (live_response e fx) 5000 p c [live_url e]"
  using assms by (simp add: handler_live_def Let_def stored_def live_response_def)

lemma date_stores:
  assumes "\<not> truthy (get (''fixtures:date:'' @ date) t c)"
    and "fetch_json (up (date_url e date)) = Inr raw"
    and "fixtures_of e raw = Inr fx"
  shows "handler_date e up t p date c
           = stored (''fixtures:date:'' @ date) (daily e date fx) 60000 p c [date_url e date]"
  using assms by (simp add: handler_date_def Let_def stored_def)

lemma tomorrow_stores:
  assumes "clock_ok n"
    and "\<not> truthy (get ''fixtures:tomorrow'' t c)"
    and "fetch_json (up (date_url e (iso_date (n + msPerDay)))) = Inr raw"
    and "fixtures_of e raw = Inr fx"
  shows "handler_tomorrow e up t n p c
           = stored ''fixtures:tomorrow'' (daily e (iso_date (n + msPerDay)) fx) 60000 p c
               [date_url e (iso_date (n + msPerDay))]"
proof -
  have m: "setUTCDate n (DateFromTime n + 1) = Some (n + msPerDay)"
    using assms(1) by (rule setUTCDate_tomorrow)
  obtain s where s: "toISOString (Some (n + msPerDay)) = Inr s"
    using toISOString_total by blast
  have d: "take 10 s = iso_date (n + msPerDay)"
    using s by (rule toISOString_Some)
  show ?thesis
    using assms(2-) by (simp add: handler_tomorrow_def Let_def m s d stored_def)
qed

lemma upcoming_stores:
  assumes clock: "clock_ok n"
    and num: "Number e (nullish (field (field req ''query'') ''days'') (JNum (Fin 7))) = Inr m"
    and miss: "\<not> truthy (get (''fixtures:upcoming:'' @ num_toString e (clamp_days m)) t c)"
    and ok: "\<forall>j. j < iterations m \<longrightarrow> day_ok e up n fx j"
  shows "handler_upcoming e up t n p req c
           = stored (''fixtures:upcoming:'' @ num_toString e (clamp_days m))
               (upcoming_response e n m fx) 60000 p c
               (map (day_url e n) [0..<iterations m])"
proof -
  have loop: "upcoming_loop e up n m 0 [] []
                = (Inr (schedule_from e n fx 0 (iterations m)),
                   map (day_url e n) [0..<iterations m])"
    using upcoming_loop_ok [OF clock, of 0 m e up fx "[]" "[]"] ok by simp
  show ?thesis
    using miss by (simp add: handler_upcoming_def num Let_def loop stored_def upcoming_response_def)
qed

lemma match_stores:
  assumes "\<not> truthy (get (''match:'' @ mid) t c)"
    and "fetch_json (up (match_url e mid)) = Inr raw"
  shows "handler_match e up t p mid c
           = stored (''match:'' @ mid) raw 3000 p c [match_url e mid]"
  using assms by (simp add: handler_match_def Let_def stored_def)

text \<open>
  C1. A request for a date that misses the cache, whose upstream request is answered with JSON
  that normalizes, makes that one upstream request, returns the assembled response and stores
  it with expiry 60000 ms after the clock reading \<open>p1\<close> of the \<^verbatim>\<open>put\<close>. A later request for the
  same date at any time before that expiry is a cache hit: it returns the stored response and
  makes no upstream request, so the two requests made one. A request at or after the expiry
  makes the upstream request again. Every handler checks the cache before it fetches: it is
  read-through on its key, so it answers from the cache with no upstream request when \<^verbatim>\<open>get\<close>
  gives a truthy value, a response it returns after a miss is the one it has stored, and a run
  that fails leaves the cache as it was. And every handler stores the assembled response after
  a miss: when \<^verbatim>\<open>get\<close> gives no truthy value and the upstream answers are JSON that normalizes,
  the today, live, date, tomorrow and upcoming handlers return the response assembled from the
  normalized fixtures and store it under their key for 60000 ms (live: 5000 ms), and the match
  handler returns the raw payload and stores it for 3000 ms. (For tomorrow and upcoming the
  clock reading \<open>n\<close> of \<^verbatim>\<open>new Date()\<close> is taken in the range \<open>clock_ok\<close>, where the dates are
  computed in closed form.)
\<close>

theorem date_requests_within_ttl:
  assumes miss: "\<not> truthy (get (''fixtures:date:'' @ date) t1 c)"
    and got: "fetch_json (up1 (date_url e date)) = Inr raw"
    and norm: "fixtures_of e raw = Inr fxs"
  shows "fetched (handler_date e up1 t1 p1 date c) = [date_url e date]
    \<and> reply (handler_date e up1 t1 p1 date c) = Inr (daily e date fxs)
    \<and> cache_after (handler_date e up1 t1 p1 date c)
        = put (''fixtures:date:'' @ date) (daily e date fxs) 60000 p1 c
    \<and> (\<forall>up2 t2 p2. t2 < p1 + 60000 \<longrightarrow>
          handler_date e up2 t2 p2 date (cache_after (handler_date e up1 t1 p1 date c))
            = hit (daily e date fxs) (cache_after (handler_date e up1 t1 p1 date c)))
    \<and> (\<forall>up3 t3 p3. p1 + 60000 \<le> t3 \<longrightarrow>
          fetched (handler_date e up3 t3 p3 date (cache_after (handler_date e up1 t1 p1 date c)))
            = [date_url e date])
    \<and> read_through (get ''fixtures:today:simple'' t c') (\<lambda>r. put ''fixtures:today:simple'' r 60000 p c') c'
         (handler_today e up t n p c')
    \<and> read_through (get ''live:simple'' t c') (\<lambda>r. put ''live:simple'' r 5000 p c') c'
         (handler_live e up t p c')
    \<and> read_through (get (''fixtures:date:'' @ d) t c') (\<lambda>r. put (''fixtures:date:'' @ d) r 60000 p c') c'
         (handler_date e up t p d c')
    \<and> read_through (get ''fixtures:tomorrow'' t c') (\<lambda>r. put ''fixtures:tomorrow'' r 60000 p c') c'
         (handler_tomorrow e up t n p c')
    \<and> (\<forall>m. Number e (nullish (field (field req ''query'') ''days'') (JNum (Fin 7))) = Inr m \<longrightarrow>
          read_through (get (''fixtures:upcoming:'' @ num_toString e (clamp_days m)) t c')
            (\<lambda>r. put (''fixtures:upcoming:'' @ num_toString e (clamp_days m)) r 60000 p c') c'
            (handler_upcoming e up t n p req c'))
    \<and> read_through (get (''match:'' @ mid) t c') (\<lambda>r. put (''match:'' @ mid) r 3000 p c') c'
         (handler_match e up t p mid c')
    \<and> (\<forall>r fx. \<not> truthy (get ''fixtures:today:simple'' t c')
          \<and> fetch_json (up (date_url e (iso_date n))) = Inr r \<and> fixtures_of e r = Inr fx \<longrightarrow>
          handler_today e up t n p c'
            = stored ''fixtures:today:simple'' (daily e (iso_date n) fx) 60000 p c'
                [date_url e (iso_date n)])
    \<and> (\<forall>r fx. \<not> truthy (get ''live:simple'' t c')
          \<and> fetch_json (up (live_url e)) = Inr r \<and> fixtures_of e r = Inr fx \<longrightarrow>
          handler_live e up t p c' = stored ''live:simple'' (live_response e fx) 5000 p c' [live_url e])
    \<and> (\<forall>r fx. \<not> truthy (get (''fixtures:date:'' @ d) t c')
          \<and> fetch_json (up (date_url e d)) = Inr r \<and> fixtures_of e r = Inr fx \<longrightarrow>
          handler_date e up t p d c'
            = stored (''fixtures:date:'' @ d) (daily e d fx) 60000 p c' [date_url e d])
    \<and> (\<forall>r fx. clock_ok n \<and> \<not> truthy (get ''fixtures:tomorrow'' t c')
          \<and> fetch_json (up (date_url e (iso_date (n + msPerDay)))) = Inr r
          \<and> fixtures_of e r = Inr fx \<longrightarrow>
          handler_tomorrow e up t n p c'
            = stored ''fixtures:tomorrow'' (daily e (iso_date (n + msPerDay)) fx) 60000 p c'
                [date_url e (iso_date (n + msPerDay))])
    \<and> (\<forall>m fd. clock_ok n
          \<and> Number e (nullish (field (field req ''query'') ''days'') (JNum (Fin 7))) = Inr m
          \<and> \<not> truthy (get (''fixtures:upcoming:'' @ num_toString e (clamp_days m)) t c')
          \<and> (\<forall>j. j < iterations m \<longrightarrow> day_ok e up n fd j) \<longrightarrow>
          handler_upcoming e up t n p req c'
            = stored (''fixtures:upcoming:'' @ num_toString e (clamp_days m))
                (upcoming_response e n m fd) 60000 p c' (map (day_url e n) [0..<iterations m]))
    \<and> (\<forall>r. \<not> truthy (get (''match:'' @ mid) t c') \<and> fetch_json (up (match_url e mid)) = Inr r \<longrightarrow>
          handler_match e up t p mid c' = stored (''match:'' @ mid) r 3000 p c' [match_url e mid])"
proof -
  let ?o1 = "handler_date e up1 t1 p1 date c"
  have o1: "?o1 = \<lparr>reply = Inr (daily e date fxs),
                   cache_after = put (''fixtures:date:'' @ date) (daily e date fxs) 60000 p1 c,
                   fetched = [date_url e date]\<rparr>"
    using miss got norm by (simp add: handler_date_def Let_def)
  have ca: "cache_after ?o1 = put (''fixtures:date:'' @ date) (daily e date fxs) 60000 p1 c"
    by (simp add: o1)
  have second: "handler_date e up2 t2 p2 date (cache_after ?o1) = hit (daily e date fxs) (cache_after ?o1)"
    if "t2 < p1 + 60000" for up2 t2 p2
    unfolding ca using that by (simp add: handler_date_def Let_def get_put_same truthy_daily)
  have third: "fetched (handler_date e up3 t3 p3 date (cache_after ?o1)) = [date_url e date]"
    if "p1 + 60000 \<le> t3" for up3 t3 p3
    unfolding ca using that
    by (simp add: handler_date_def Let_def get_put_same failed_def split: sum.splits)
  have first: "fetched ?o1 = [date_url e date]" "reply ?o1 = Inr (daily e date fxs)"
    by (simp_all add: o1)
  have today: "handler_today e up t n p c'
            = stored ''fixtures:today:simple'' (daily e (iso_date n) fx) 60000 p c'
                [date_url e (iso_date n)]"
    if "\<not> truthy (get ''fixtures:today:simple'' t c')
          \<and> fetch_json (up (date_url e (iso_date n))) = Inr r \<and> fixtures_of e r = Inr fx" for r fx
    using that by (elim conjE) (rule today_stores; assumption)
  have live: "handler_live e up t p c' = stored ''live:simple'' (live_response e fx) 5000 p c' [live_url e]"
    if "\<not> truthy (get ''live:simple'' t c')
          \<and> fetch_json (up (live_url e)) = Inr r \<and> fixtures_of e r = Inr fx" for r fx
    using that by (elim conjE) (rule live_stores; assumption)
  have dat: "handler_date e up t p d c'
            = stored (''fixtures:date:'' @ d) (daily e d fx) 60000 p c' [date_url e d]"
    if "\<not> truthy (get (''fixtures:date:'' @ d) t c')
          \<and> fetch_json (up (date_url e d)) = Inr r \<and> fixtures_of e r = Inr fx" for r fx
    using that by (elim conjE) (rule date_stores; assumption)
  have tomorrow: "handler_tomorrow e up t n p c'
            = stored ''fixtures:tomorrow'' (daily e (iso_date (n + msPerDay)) fx) 60000 p c'
                [date_url e (iso_date (n + msPerDay))]"
    if "clock_ok n \<and> \<not> truthy (get ''fixtures:tomorrow'' t c')
          \<and> fetch_json (up (date_url e (iso_date (n + msPerDay)))) = Inr r
          \<and> fixtures_of e r = Inr fx" for r fx
    using that by (elim conjE) (rule tomorrow_stores; assumption)
  have upcoming: "handler_upcoming e up t n p req c'
            = stored (''fixtures:upcoming:'' @ num_toString e (clamp_days m))
                (upcoming_response e n m fd) 60000 p c' (map (day_url e n) [0..<iterations m])"
    if "clock_ok n
          \<and> Number e (nullish (field (field req ''query'') ''days'') (JNum (Fin 7))) = Inr m
          \<and> \<not> truthy (get (''fixtures:upcoming:'' @ num_toString e (clamp_days m)) t c')
          \<and> (\<forall>j. j < iterations m \<longrightarrow> day_ok e up n fd j)" for m fd
    using that by (elim conjE) (rule upcoming_stores; assumption)
  have match: "handler_match e up t p mid c' = stored (''match:'' @ mid) r 3000 p c' [match_url e mid]"
    if "\<not> truthy (get (''match:'' @ mid) t c') \<and> fetch_json (up (match_url e mid)) = Inr r" for r
    using that by (elim conjE) (rule match_stores; assumption)
  show ?thesis
    by (intro conjI allI impI)
      (rule first ca read_through_today read_through_live read_through_date
         read_through_tomorrow read_through_match
       | erule second third read_through_upcoming today live dat tomorrow upcoming match)+
qed

text \<open>The part of a conjunction after its first eleven conjuncts.\<close>

lemmas conj12 = conjunct2 [THEN conjunct2, THEN conjunct2, THEN conjunct2, THEN conjunct2,
  THEN conjunct2, THEN conjunct2, THEN conjunct2, THEN conjunct2, THEN conjunct2, THEN conjunct2]

theorem date_requests_within_ttl_witness:
  "fetched (handler_date env0 (\<lambda>u. Response 200 (Some demo_raw)) 1756252800000 1756252800250
              ''2025-08-27'' Map.empty) = [date_url env0 ''2025-08-27'']
   \<and> fetched (handler_date env0 (\<lambda>u. NetworkFailure) 1756252860249 1756252860300 ''2025-08-27''
        (cache_after (handler_date env0 (\<lambda>u. Response 200 (Some demo_raw)) 1756252800000
           1756252800250 ''2025-08-27'' Map.empty))) = []
   \<and> fetched (handler_date env0 (\<lambda>u. NetworkFailure) 1756252860250 1756252860300 ''2025-08-27''
        (cache_after (handler_date env0 (\<lambda>u. Response 200 (Some demo_raw)) 1756252800000
           1756252800250 ''2025-08-27'' Map.empty))) = [date_url env0 ''2025-08-27'']
   \<and> cache_after (handler_match env0 (\<lambda>u. Response 200 (Some demo_raw)) 1756300000000
        1756300000900 ''7'' Map.empty) ''match:7''
       = Some \<lparr>exp_t = 1756300003900, data = demo_raw\<rparr>
   \<and> cache_after (handler_live env0 (\<lambda>u. Response 200 (Some demo_raw)) 1756300000000
        1756300000900 Map.empty) ''live:simple''
       = Some \<lparr>exp_t = 1756300005900, data = live_response env0 [demo_fixture None\<lparr>fixture_id := JNum (Fin 1)\<rparr>]\<rparr>
   \<and> cache_after (handler_upcoming env0 (\<lambda>u. Response 200 (Some demo_raw)) 1756300000000
        1756300000000 1756300000900 (JObj [(''query'', JObj [(''days'', JStr ''3'')])]) Map.empty)
        ''fixtures:upcoming:3''
       = Some \<lparr>exp_t = 1756300060900,
               data = upcoming_response env0 1756300000000 (Fin 3)
                        (\<lambda>j. [demo_fixture None\<lparr>fixture_id := JNum (Fin 1)\<rparr>])\<rparr>"
proof -
  let ?up = "\<lambda>u::string. Response 200 (Some demo_raw)"
  let ?req = "JObj [(''query'', JObj [(''days'', JStr ''3'')])]"
  let ?fd = "\<lambda>j::nat. [demo_fixture None\<lparr>fixture_id := JNum (Fin 1)\<rparr>]"
  have demo: "fixtures_of env0 demo_raw = Inr [demo_fixture None\<lparr>fixture_id := JNum (Fin 1)\<rparr>]"
    by (simp add: fixtures_of_demo demo_fixture_def)
  have miss: "\<not> truthy (get (''fixtures:date:'' @ ''2025-08-27'') 1756252800000 Map.empty)"
    by (simp add: get_def)
  have got: "fetch_json ((\<lambda>u. Response 200 (Some demo_raw)) (date_url env0 ''2025-08-27'')) = Inr demo_raw"
    by (simp add: fetch_json_def)
  note th = date_requests_within_ttl [where e = env0 and date = "''2025-08-27''"
      and ?t1.0 = 1756252800000 and c = Map.empty and ?up1.0 = "\<lambda>u. Response 200 (Some demo_raw)"
      and ?p1.0 = 1756252800250 and up = ?up and t = 1756300000000 and n = 1756300000000
      and p = 1756300000900 and c' = Map.empty and mid = "''7''" and req = ?req,
      OF miss got demo]
  have a: "fetched (handler_date env0 (\<lambda>u. Response 200 (Some demo_raw)) 1756252800000
              1756252800250 ''2025-08-27'' Map.empty) = [date_url env0 ''2025-08-27'']"
    using th [THEN conjunct1] by simp
  have b: "fetched (handler_date env0 (\<lambda>u. NetworkFailure) 1756252860249 1756252860300 ''2025-08-27''
        (cache_after (handler_date env0 (\<lambda>u. Response 200 (Some demo_raw)) 1756252800000
           1756252800250 ''2025-08-27'' Map.empty))) = []"
    using th [THEN conjunct2, THEN conjunct2, THEN conjunct2, THEN conjunct1, rule_format,
        of 1756252860249 "\<lambda>u. NetworkFailure" 1756252860300]
    by (simp add: hit_def)
  have c: "fetched (handler_date env0 (\<lambda>u. NetworkFailure) 1756252860250 1756252860300 ''2025-08-27''
        (cache_after (handler_date env0 (\<lambda>u. Response 200 (Some demo_raw)) 1756252800000
           1756252800250 ''2025-08-27'' Map.empty))) = [date_url env0 ''2025-08-27'']"
    using th [THEN conjunct2, THEN conjunct2, THEN conjunct2, THEN conjunct2, THEN conjunct1,
        rule_format, of 1756252860250 "\<lambda>u. NetworkFailure" 1756252860300]
    by simp
  have m: "cache_after (handler_match env0 ?up 1756300000000 1756300000900 ''7'' Map.empty) ''match:7''
       = Some \<lparr>exp_t = 1756300003900, data = demo_raw\<rparr>"
    using th [THEN conj12, THEN conjunct2, THEN conjunct2, THEN conjunct2, THEN conjunct2,
        THEN conjunct2, rule_format, of demo_raw]
    by (simp add: get_def fetch_json_def stored_def put_def)
  have l: "cache_after (handler_live env0 ?up 1756300000000 1756300000900 Map.empty) ''live:simple''
       = Some \<lparr>exp_t = 1756300005900, data = live_response env0 [demo_fixture None\<lparr>fixture_id := JNum (Fin 1)\<rparr>]\<rparr>"
    using th [THEN conj12, THEN conjunct2, THEN conjunct1, rule_format, of demo_raw
        "[demo_fixture None\<lparr>fixture_id := JNum (Fin 1)\<rparr>]"] demo
    by (simp add: get_def fetch_json_def stored_def put_def)
  have key: "num_toString env0 (clamp_days (Fin 3)) = ''3''"
    by (simp add: demo_iterations num_toString_def)
  have ok: "\<forall>j. j < iterations (Fin 3) \<longrightarrow> day_ok env0 ?up 1756300000000 ?fd j"
    by (simp add: day_ok_def fetch_json_def demo)
  have u: "cache_after (handler_upcoming env0 ?up 1756300000000 1756300000000 1756300000900 ?req
             Map.empty) ''fixtures:upcoming:3''
       = Some \<lparr>exp_t = 1756300060900, data = upcoming_response env0 1756300000000 (Fin 3) ?fd\<rparr>"
    using th [THEN conj12, THEN conjunct2, THEN conjunct2, THEN conjunct2, THEN conjunct2,
        THEN conjunct1, rule_format, of "Fin 3" ?fd] demo_clock Number_demo_days(1) ok
    by (simp add: key get_def stored_def put_def)
  show ?thesis
    using a b c m l u by blast
qed


section \<open>The day count of the upcoming endpoint\<close>

text \<open>
  C6. With \<^verbatim>\<open>days=abc\<close> the day count is NaN, not a number from 1 to 14: the loop body never
  runs, no day is requested, and the response with day count NaN and an empty schedule is
  stored for 60 seconds under the key for NaN. With \<^verbatim>\<open>days=2.5\<close> the day count is 2.5 and the loop
  requests three days.
\<close>

theorem upcoming_days_unclamped:
  "handler_upcoming env0 (\<lambda>u. Response 200 (Some demo_raw)) 1756300000000 1756300000000
     1756300000900 (JObj [(''query'', JObj [(''days'', JStr ''abc'')])]) Map.empty
   = \<lparr>reply = Inr (JObj [(''days'', JNum NaN), (''schedule'', JArr [])]),
      cache_after = put ''fixtures:upcoming:NaN''
                      (JObj [(''days'', JNum NaN), (''schedule'', JArr [])])
                      60000 1756300000900 Map.empty,
      fetched = []\<rparr>
   \<and> fetched (handler_upcoming env0 (\<lambda>u. Response 200 (Some demo_raw)) 1756300000000
        1756300000000 1756300000900 (JObj [(''query'', JObj [(''days'', JStr ''2.5'')])]) Map.empty)
     = [''https://api.sportmonks.com/v3/football/fixtures/date/2025-08-27?api_token=KEY&include=participants;league;scores&locale=ar'',
        ''https://api.sportmonks.com/v3/football/fixtures/date/2025-08-28?api_token=KEY&include=participants;league;scores&locale=ar'',
        ''https://api.sportmonks.com/v3/football/fixtures/date/2025-08-29?api_token=KEY&include=participants;league;scores&locale=ar'']"
proof -
  let ?up = "\<lambda>u::string. Response 200 (Some demo_raw)"
  let ?fx = "\<lambda>j::nat. [\<lparr>fixture_id = JNum (Fin 1), league_id = Undefined, league_name = Null,
           state_id = Undefined, kickoff_utc = None, kickoff_bahrain = None,
           home = team_of (JObj []), away = team_of (JObj []),
           score_home = Fin 0, score_away = Fin 0\<rparr>]"
  have loop: "upcoming_loop env0 ?up 1756300000000 NaN 0 [] [] = (Inr [], [])"
    by (subst upcoming_loop.simps) (simp add: demo_iterations)
  have a: "handler_upcoming env0 ?up 1756300000000 1756300000000
     1756300000900 (JObj [(''query'', JObj [(''days'', JStr ''abc'')])]) Map.empty
   = \<lparr>reply = Inr (JObj [(''days'', JNum NaN), (''schedule'', JArr [])]),
      cache_after = put ''fixtures:upcoming:NaN''
                      (JObj [(''days'', JNum NaN), (''schedule'', JArr [])])
                      60000 1756300000900 Map.empty,
      fetched = []\<rparr>"
    using Number_demo_days(2)
    by (simp add: handler_upcoming_def nullish_def demo_iterations Let_def get_def
        num_toString_def loop)
  have miss: "\<not> truthy (get (''fixtures:upcoming:'' @ num_toString env0 (clamp_days (Fin (5 / 2))))
                 1756300000000 Map.empty)"
    by (simp add: get_def)
  have ok: "\<forall>j. j < iterations (Fin (5 / 2)) \<longrightarrow> day_ok env0 ?up 1756300000000 ?fx j"
    by (simp add: day_ok_def fetch_json_def fixtures_of_demo)
  have "[0..<3] = [0, 1, 2]"
    by (simp add: upt_rec)
  then have b: "fetched (handler_upcoming env0 ?up 1756300000000
        1756300000000 1756300000900 (JObj [(''query'', JObj [(''days'', JStr ''2.5'')])]) Map.empty)
     = [''https://api.sportmonks.com/v3/football/fixtures/date/2025-08-27?api_token=KEY&include=participants;league;scores&locale=ar'',
        ''https://api.sportmonks.com/v3/football/fixtures/date/2025-08-28?api_token=KEY&include=participants;league;scores&locale=ar'',
        ''https://api.sportmonks.com/v3/football/fixtures/date/2025-08-29?api_token=KEY&include=participants;league;scores&locale=ar'']"
    using upcoming_all_days(2) [OF demo_clock Number_demo_days(3) miss ok, of 1756300000900]
    by (simp add: demo_iterations demo_urls)
  show ?thesis
    using a b by blast
qed

text \<open>
  C7. With \<^verbatim>\<open>days=2.5\<close> and fixtures on each day, the response has the day count 2.5 and a
  schedule of three entries: the schedule is longer than \<^verbatim>\<open>days\<close>.
\<close>

theorem schedule_longer_than_days:
  "reply (handler_upcoming env0 (\<lambda>u. Response 200 (Some demo_raw)) 1756300000000
        1756300000000 1756300000900 (JObj [(''query'', JObj [(''days'', JStr ''2.5'')])]) Map.empty)
     = Inr (JObj [(''days'', JNum (Fin (5 / 2))),
                  (''schedule'',
                   JArr [day_entry env0 ''2025-08-27'' [(demo_fixture None)\<lparr>fixture_id := JNum (Fin 1)\<rparr>],
                         day_entry env0 ''2025-08-28'' [(demo_fixture None)\<lparr>fixture_id := JNum (Fin 1)\<rparr>],
                         day_entry env0 ''2025-08-29'' [(demo_fixture None)\<lparr>fixture_id := JNum (Fin 1)\<rparr>]])])
   \<and> \<not> num_le (Fin 3) (Fin (5 / 2))"
proof -
  let ?up = "\<lambda>u::string. Response 200 (Some demo_raw)"
  let ?fx = "\<lambda>j::nat. [(demo_fixture None)\<lparr>fixture_id := JNum (Fin 1)\<rparr>]"
  have miss: "\<not> truthy (get (''fixtures:upcoming:'' @ num_toString env0 (clamp_days (Fin (5 / 2))))
                 1756300000000 Map.empty)"
    by (simp add: get_def)
  have ok: "\<forall>j. j < iterations (Fin (5 / 2)) \<longrightarrow> day_ok env0 ?up 1756300000000 ?fx j"
    by (simp add: day_ok_def fetch_json_def fixtures_of_demo demo_fixture_def)
  have "[0..<3] = [0, 1, 2]"
    by (simp add: upt_rec)
  then have "reply (handler_upcoming env0 ?up 1756300000000
        1756300000000 1756300000900 (JObj [(''query'', JObj [(''days'', JStr ''2.5'')])]) Map.empty)
     = Inr (JObj [(''days'', JNum (Fin (5 / 2))),
                  (''schedule'',
                   JArr [day_entry env0 ''2025-08-27'' [(demo_fixture None)\<lparr>fixture_id := JNum (Fin 1)\<rparr>],
                         day_entry env0 ''2025-08-28'' [(demo_fixture None)\<lparr>fixture_id := JNum (Fin 1)\<rparr>],
                         day_entry env0 ''2025-08-29'' [(demo_fixture None)\<lparr>fixture_id := JNum (Fin 1)\<rparr>]])])"
    using upcoming_all_days(1) [OF demo_clock Number_demo_days(3) miss ok, of 1756300000900]
      demo_dates
    by (simp add: demo_iterations schedule_from_def)
  then show ?thesis
    by (simp add: num_le_def)
qed

end
